theory Spec2Isabelle
  imports Complex_Main
begin

section \<open>Data model\<close>

text \<open>
  The development embeds \<^verbatim>\<open>pyvista/core/validation/validate.py\<close>. Exceptions are
  values: a function that can raise returns \<open>error + 'a\<close>, with \<open>Inl\<close> the exception.
  Error messages (and with them the \<^verbatim>\<open>name\<close> parameter, which is used for nothing
  else) are not modelled.
\<close>

datatype error = TypeError | ValueError

definition err_bind :: "error + 'a \<Rightarrow> ('a \<Rightarrow> error + 'b) \<Rightarrow> error + 'b" where
  "err_bind m f = (case m of Inl e \<Rightarrow> Inl e | Inr x \<Rightarrow> f x)"

text \<open>
  A float64 value: a real number or one of the three non-finite values. Rounding is not
  modelled: arithmetic on finite values is exact arithmetic on the reals. Integers and
  booleans held in an array are finite values as well (\<open>True\<close> is 1).
\<close>

datatype number = Fin real | PosInf | NegInf | NaN

fun is_finite :: "number \<Rightarrow> bool" where
  "is_finite (Fin _) = True"
| "is_finite _ = False"

text \<open>IEEE comparisons: every comparison with NaN is false.\<close>

fun num_le :: "number \<Rightarrow> number \<Rightarrow> bool" where
  "num_le NaN _ = False"
| "num_le _ NaN = False"
| "num_le (Fin a) (Fin b) = (a \<le> b)"
| "num_le NegInf _ = True"
| "num_le _ PosInf = True"
| "num_le _ _ = False"

definition num_lt :: "number \<Rightarrow> number \<Rightarrow> bool" where
  "num_lt a b = (num_le a b \<and> \<not> num_le b a)"

definition num_eq :: "number \<Rightarrow> number \<Rightarrow> bool" where
  "num_eq a b = (num_le a b \<and> num_le b a)"

fun num_neg :: "number \<Rightarrow> number" where
  "num_neg (Fin a) = Fin (- a)"
| "num_neg PosInf = NegInf"
| "num_neg NegInf = PosInf"
| "num_neg NaN = NaN"

fun num_add :: "number \<Rightarrow> number \<Rightarrow> number" where
  "num_add (Fin a) (Fin b) = Fin (a + b)"
| "num_add NaN _ = NaN"
| "num_add _ NaN = NaN"
| "num_add PosInf NegInf = NaN"
| "num_add NegInf PosInf = NaN"
| "num_add PosInf _ = PosInf"
| "num_add _ PosInf = PosInf"
| "num_add NegInf _ = NegInf"
| "num_add _ NegInf = NegInf"

definition num_sub :: "number \<Rightarrow> number \<Rightarrow> number" where
  "num_sub a b = num_add a (num_neg b)"

fun num_mul :: "number \<Rightarrow> number \<Rightarrow> number" where
  "num_mul (Fin a) (Fin b) = Fin (a * b)"
| "num_mul x y =
     (if x = NaN \<or> y = NaN \<or> x = Fin 0 \<or> y = Fin 0 then NaN
      else if num_lt (Fin 0) x = num_lt (Fin 0) y then PosInf else NegInf)"

text \<open>Division of finite values by zero gives an infinity or NaN, as numpy does (with a
  warning); signed zeros are not modelled.\<close>

fun num_div :: "number \<Rightarrow> number \<Rightarrow> number" where
  "num_div (Fin a) (Fin b) =
     (if b \<noteq> 0 then Fin (a / b)
      else if a = 0 then NaN else if 0 < a then PosInf else NegInf)"
| "num_div NaN _ = NaN"
| "num_div _ NaN = NaN"
| "num_div (Fin a) _ = Fin 0"
| "num_div x (Fin b) = (if num_lt (Fin 0) x = (0 \<le> b) then PosInf else NegInf)"
| "num_div _ _ = NaN"

fun num_abs :: "number \<Rightarrow> number" where
  "num_abs (Fin a) = Fin \<bar>a\<bar>"
| "num_abs NaN = NaN"
| "num_abs _ = PosInf"

fun num_sqrt :: "number \<Rightarrow> number" where
  "num_sqrt (Fin a) = (if a < 0 then NaN else Fin (sqrt a))"
| "num_sqrt PosInf = PosInf"
| "num_sqrt _ = NaN"

fun num_floor :: "number \<Rightarrow> number" where
  "num_floor (Fin a) = Fin (of_int \<lfloor>a\<rfloor>)"
| "num_floor x = x"

text \<open>The element kind of an array (spec 3: boolean, integer or floating).\<close>

datatype dtype = DBool | DInt | DFloat

text \<open>
  The canonical array: a shape, an element kind and the elements in row-major order.
\<close>

record ndarray =
  shape :: "nat list"
  dtype :: dtype
  data :: "number list"

definition wf_array :: "ndarray \<Rightarrow> bool" where
  "wf_array a = (length (data a) = prod_list (shape a))"

text \<open>
  What a caller can pass: Python scalars, strings, \<^verbatim>\<open>None\<close>, nested lists and tuples, and
  arrays. Complex numbers are not part of the model.
\<close>

datatype pyobj =
    PBool bool
  | PInt int
  | PFloat number
  | PStr string
  | PNone
  | PList "pyobj list"
  | PTuple "pyobj list"
  | PArray ndarray

text \<open>What \<^verbatim>\<open>validate_array\<close> returns: an array, or a Python object (a nested list or
  tuple, or a bare scalar).\<close>

datatype outval = OArr ndarray | OPy pyobj

subsection \<open>Shapes and other parameter values\<close>

text \<open>
  \<^verbatim>\<open>ShapeLike\<close> is an \<^verbatim>\<open>int\<close> or a tuple of \<^verbatim>\<open>int\<close>; \<^verbatim>\<open>must_have_shape\<close> takes one
  \<^verbatim>\<open>ShapeLike\<close> or a list of them. The constructors keep apart what Python's \<^verbatim>\<open>!=\<close>
  keeps apart: \<^verbatim>\<open>3\<close>, \<^verbatim>\<open>(3,)\<close>, \<^verbatim>\<open>[3]\<close> and \<^verbatim>\<open>[(3,)]\<close> are four different values.
\<close>

datatype shape_like = SInt int | STuple "int list"

datatype shape_spec = OneShape shape_like | ShapeList "shape_like list"

text \<open>A dtype-like argument: the Python types \<^verbatim>\<open>bool\<close>, \<^verbatim>\<open>int\<close>, \<^verbatim>\<open>float\<close> and numpy's
  abstract families \<^verbatim>\<open>np.integer\<close>, \<^verbatim>\<open>np.floating\<close>, \<^verbatim>\<open>np.number\<close>.\<close>

datatype dtype_like = TBool | TInt | TFloat | TInteger | TFloating | TNumber

text \<open>\<^verbatim>\<open>must_be_sorted\<close>: a \<^verbatim>\<open>bool\<close>, or a \<^verbatim>\<open>dict\<close> whose keys \<^verbatim>\<open>ascending\<close>,
  \<^verbatim>\<open>strict\<close> and \<^verbatim>\<open>axis\<close> may each be absent.\<close>

datatype sort_like = SortBool bool | SortDict "bool option" "bool option" "int option"

text \<open>The parameters of \<^verbatim>\<open>validate_array\<close> (lines 41-66), \<^verbatim>\<open>name\<close> apart.\<close>

record config =
  must_have_shape :: "shape_spec option"
  must_have_dtype :: "dtype_like list option"
  must_have_length :: "int list option"
  must_have_min_length :: "int option"
  must_have_max_length :: "int option"
  must_be_nonnegative :: bool
  must_be_finite :: bool
  must_be_real :: bool
  must_be_integer :: bool
  must_be_sorted :: sort_like
  must_be_in_range :: "(number \<times> number) option"
  strict_lower_bound :: bool
  strict_upper_bound :: bool
  reshape_to :: "shape_like option"
  broadcast_to :: "shape_like option"
  dtype_out :: "dtype_like option"
  as_any :: bool
  copy :: bool
  to_list :: bool
  to_tuple :: bool

text \<open>The defaults of the signature.\<close>

definition default_config :: config where
  "default_config =
     \<lparr>must_have_shape = None, must_have_dtype = None, must_have_length = None,
      must_have_min_length = None, must_have_max_length = None,
      must_be_nonnegative = False, must_be_finite = False, must_be_real = True,
      must_be_integer = False, must_be_sorted = SortBool False, must_be_in_range = None,
      strict_lower_bound = False, strict_upper_bound = False, reshape_to = None,
      broadcast_to = None, dtype_out = None, as_any = True, copy = False,
      to_list = False, to_tuple = False\<rparr>"

section \<open>numpy operations used by the validators\<close>

text \<open>
  \<^verbatim>\<open>numpy\<close> is a library, not code of the repository: the operations below state the
  part of its behaviour that the validators rely on.
\<close>

definition shape_dims :: "shape_like \<Rightarrow> int list" where
  "shape_dims s = (case s of SInt n \<Rightarrow> [n] | STuple t \<Rightarrow> t)"

text \<open>\<^verbatim>\<open>arr.shape\<close>, as the tuple that Python compares with a \<^verbatim>\<open>ShapeLike\<close>.\<close>

definition shape_tuple :: "ndarray \<Rightarrow> shape_like" where
  "shape_tuple a = STuple (map int (shape a))"

text \<open>
  \<^verbatim>\<open>arr.reshape(s)\<close>: one dimension may be negative (\<open>-1\<close> by convention; numpy takes any
  negative dimension as the unknown one) and is then computed from the size; two
  negative dimensions, or an element count that does not fit, are a \<^verbatim>\<open>ValueError\<close>. The
  elements keep their row-major order.
\<close>

definition np_reshape :: "ndarray \<Rightarrow> shape_like \<Rightarrow> error + ndarray" where
  "np_reshape a s =
     (let t = shape_dims s;
          n = prod_list (shape a);
          known = nat (prod_list (filter (\<lambda>d. 0 \<le> d) t))
      in if 1 < length (filter (\<lambda>d. d < 0) t) then Inl ValueError
         else if list_ex (\<lambda>d. d < 0) t then
           (if known = 0 \<or> n mod known \<noteq> 0 then Inl ValueError
            else Inr (a\<lparr>shape := map (\<lambda>d. if d < 0 then n div known else nat d) t\<rparr>))
         else if known = n then Inr (a\<lparr>shape := map nat t\<rparr>)
         else Inl ValueError)"

text \<open>Repeating the elements of an array of shape \<open>s\<close> to shape \<open>t\<close>, where the two
  shapes have the same length and each dimension of \<open>s\<close> equals that of \<open>t\<close> or is 1.\<close>

fun bcast :: "nat list \<Rightarrow> nat list \<Rightarrow> 'a list \<Rightarrow> 'a list" where
  "bcast (d # ds) (t # ts) xs =
     (if d = t then
        concat (map (\<lambda>i. bcast ds ts (take (prod_list ds) (drop (i * prod_list ds) xs))) [0..<d])
      else concat (replicate t (bcast ds ts xs)))"
| "bcast _ _ xs = xs"

text \<open>\<^verbatim>\<open>np.broadcast_to(arr, s)\<close>: \<^verbatim>\<open>ValueError\<close> when the shapes are incompatible.\<close>

definition np_broadcast_to :: "ndarray \<Rightarrow> shape_like \<Rightarrow> error + ndarray" where
  "np_broadcast_to a s =
     (let t = shape_dims s;
          tn = map nat t;
          sh = replicate (length tn - length (shape a)) 1 @ shape a
      in if list_ex (\<lambda>d. d < 0) t then Inl ValueError
         else if length tn < length (shape a) then Inl ValueError
         else if list_all2 (\<lambda>d q. d = q \<or> d = 1) sh tn
           then Inr (a\<lparr>shape := tn, data := bcast sh tn (data a)\<rparr>)
         else Inl ValueError)"

text \<open>\<^verbatim>\<open>np.dtype(t)\<close>: the concrete element kind of a dtype-like (the abstract families
  resolve to their default member).\<close>

fun np_dtype :: "dtype_like \<Rightarrow> dtype" where
  "np_dtype TBool = DBool"
| "np_dtype TInt = DInt"
| "np_dtype TInteger = DInt"
| "np_dtype TFloat = DFloat"
| "np_dtype TFloating = DFloat"
| "np_dtype TNumber = DFloat"

text \<open>\<^verbatim>\<open>np.issubdtype\<close> on the three element kinds.\<close>

fun issubdtype :: "dtype \<Rightarrow> dtype_like \<Rightarrow> bool" where
  "issubdtype DBool t = (t = TBool)"
| "issubdtype DInt t = (t = TInt \<or> t = TInteger \<or> t = TNumber)"
| "issubdtype DFloat t = (t = TFloat \<or> t = TFloating \<or> t = TNumber)"

text \<open>Casting one element: to a 64-bit integer by truncation towards zero (a value whose
  truncation is out of the 64-bit range, and a non-finite value, become the least 64-bit
  integer), to a boolean by comparison with zero.\<close>

definition trunc64 :: "real \<Rightarrow> int" where
  "trunc64 r =
     (let i = (if 0 \<le> r then \<lfloor>r\<rfloor> else \<lceil>r\<rceil>)
      in if - (2 ^ 63) \<le> i \<and> i < 2 ^ 63 then i else - (2 ^ 63))"

fun cast_elem :: "dtype \<Rightarrow> number \<Rightarrow> number" where
  "cast_elem DFloat x = x"
| "cast_elem DInt (Fin r) = Fin (of_int (trunc64 r))"
| "cast_elem DInt _ = Fin (- (2 ^ 63))"
| "cast_elem DBool x = Fin (if x = Fin 0 then 0 else 1)"

text \<open>\<^verbatim>\<open>arr.astype(d, copy=False)\<close>: the array itself when the kind already matches.\<close>

definition astype :: "ndarray \<Rightarrow> dtype \<Rightarrow> ndarray" where
  "astype a d = (if dtype a = d then a else a\<lparr>dtype := d, data := map (cast_elem d) (data a)\<rparr>)"

text \<open>The Python scalar for an element of an array of the given kind.\<close>

fun py_scalar :: "dtype \<Rightarrow> number \<Rightarrow> pyobj" where
  "py_scalar DBool x = PBool (x \<noteq> Fin 0)"
| "py_scalar DInt (Fin r) = PInt \<lfloor>r\<rfloor>"
| "py_scalar DInt x = PFloat x"
| "py_scalar DFloat x = PFloat x"

text \<open>Nesting row-major elements by a shape; \<open>mk\<close> builds the container (a list or a
  tuple). A 0-dimensional array gives its one element, bare (\<^verbatim>\<open>None\<close> stands for the
  element of an array that has none, which no well-formed array is).\<close>

fun nest :: "(pyobj list \<Rightarrow> pyobj) \<Rightarrow> nat list \<Rightarrow> pyobj list \<Rightarrow> pyobj" where
  "nest mk [] xs = (case xs of [] \<Rightarrow> PNone | x # _ \<Rightarrow> x)"
| "nest mk (n # ns) xs =
     mk (map (\<lambda>i. nest mk ns (take (prod_list ns) (drop (i * prod_list ns) xs))) [0..<n])"

text \<open>\<^verbatim>\<open>arr.tolist()\<close>.\<close>

definition tolist :: "ndarray \<Rightarrow> pyobj" where
  "tolist a = nest PList (shape a) (map (py_scalar (dtype a)) (data a))"

section \<open>Coercion, checkers and output coercion\<close>

text \<open>
  The functions of \<^verbatim>\<open>pyvista.core.validation._cast_array\<close> and
  \<^verbatim>\<open>pyvista.core.validation.check\<close> are imported by \<^verbatim>\<open>validate.py\<close> (lines 25-38) and
  their source is not part of the repository's files at hand. Each is modelled from the
  specification (sections 4.1, 4.2 and 4.4).
\<close>

text \<open>The shape of a nested sequence; \<open>None\<close> when the nesting is ragged.\<close>

definition seq_shape :: "nat list option list \<Rightarrow> nat list option" where
  "seq_shape ss =
     (case ss of
        [] \<Rightarrow> Some [0]
      | s # rest \<Rightarrow>
          (case s of
             None \<Rightarrow> None
           | Some sh \<Rightarrow> if list_all (\<lambda>t. t = Some sh) rest then Some (length ss # sh) else None))"

fun py_shape :: "pyobj \<Rightarrow> nat list option" where
  "py_shape (PList xs) = seq_shape (map py_shape xs)"
| "py_shape (PTuple xs) = seq_shape (map py_shape xs)"
| "py_shape (PArray a) = Some (shape a)"
| "py_shape _ = Some []"

text \<open>The leaves of a nested sequence, in order: kind and value, \<open>None\<close> for a leaf that
  is not a number. A Python \<^verbatim>\<open>int\<close> is taken to fit the 64-bit integer kind.\<close>

fun py_items :: "pyobj \<Rightarrow> (dtype \<times> number) option list" where
  "py_items (PBool b) = [Some (DBool, Fin (if b then 1 else 0))]"
| "py_items (PInt i) = [Some (DInt, Fin (of_int i))]"
| "py_items (PFloat x) = [Some (DFloat, x)]"
| "py_items (PStr s) = [None]"
| "py_items PNone = [None]"
| "py_items (PList xs) = concat (map py_items xs)"
| "py_items (PTuple xs) = concat (map py_items xs)"
| "py_items (PArray a) = map (\<lambda>x. Some (dtype a, x)) (data a)"

fun dtype_join :: "dtype \<Rightarrow> dtype \<Rightarrow> dtype" where
  "dtype_join DFloat _ = DFloat"
| "dtype_join _ DFloat = DFloat"
| "dtype_join DInt _ = DInt"
| "dtype_join _ DInt = DInt"
| "dtype_join DBool DBool = DBool"

text \<open>The common kind of the leaves; an empty sequence gives a floating array.\<close>

definition common_dtype :: "dtype list \<Rightarrow> dtype" where
  "common_dtype ds = (if ds = [] then DFloat else foldr dtype_join ds DBool)"

text \<open>
  Modelled from the spec: \<^verbatim>\<open>_cast_to_numpy\<close> (spec 4.1). An array is used as it is;
  a scalar or a nested sequence of uniform depth with numeric leaves becomes an array;
  \<^verbatim>\<open>TypeError\<close> when a leaf is not numeric. The spec says that ragged nesting is
  rejected and not with which exception: \<^verbatim>\<open>ValueError\<close> here. The options \<^verbatim>\<open>as_any\<close>
  and \<^verbatim>\<open>copy\<close> decide whether the result is a copy, which changes no value; realness
  holds of every input of the model.
\<close>

definition cast_to_numpy :: "pyobj \<Rightarrow> bool \<Rightarrow> bool \<Rightarrow> bool \<Rightarrow> error + ndarray" where
  "cast_to_numpy obj as_any_opt copy_opt must_be_real_opt =
     (case obj of
        PArray a \<Rightarrow> Inr a
      | _ \<Rightarrow>
        (case py_shape obj of
           None \<Rightarrow> Inl ValueError
         | Some sh \<Rightarrow>
             if list_ex (\<lambda>i. i = None) (py_items obj) then Inl TypeError
             else Inr \<lparr>shape = sh,
                       dtype = common_dtype (map (\<lambda>i. fst (the i)) (py_items obj)),
                       data = map (\<lambda>i. snd (the i)) (py_items obj)\<rparr>))"

text \<open>
  Modelled from the spec: \<^verbatim>\<open>_cast_to_tuple\<close> (spec 4.4): the array unwrapped into
  nested tuples, a 0-dimensional array into a bare scalar.
\<close>

definition cast_to_tuple :: "ndarray \<Rightarrow> pyobj" where
  "cast_to_tuple a = nest PTuple (shape a) (map (py_scalar (dtype a)) (data a))"

text \<open>
  Modelled from the spec: \<^verbatim>\<open>check_subdtype\<close> (spec 4.2, a type checker): the array's
  kind must be a subtype of one of the declared dtype families. It is called with an
  array (line 281) and with a dtype (line 954); the argument here is the kind of either.
\<close>

definition check_subdtype :: "dtype \<Rightarrow> dtype_like list \<Rightarrow> error + unit" where
  "check_subdtype d ts = (if list_ex (issubdtype d) ts then Inr () else Inl TypeError)"

text \<open>A shape matches a pattern of the same length whose every dimension is the
  wildcard \<open>-1\<close> or the shape's.\<close>

definition shape_matches :: "nat list \<Rightarrow> shape_like \<Rightarrow> bool" where
  "shape_matches sh p = list_all2 (\<lambda>d q. q = -1 \<or> int d = q) sh (shape_dims p)"

definition shape_patterns :: "shape_spec \<Rightarrow> shape_like list" where
  "shape_patterns s = (case s of OneShape p \<Rightarrow> [p] | ShapeList ps \<Rightarrow> ps)"

text \<open>
  Modelled from the spec: \<^verbatim>\<open>check_shape\<close> (spec 4.2): the array's shape must equal one
  of the declared patterns, wildcard dimensions matching any size. An integer pattern
  is the one-dimensional pattern of that length (docstring of \<^verbatim>\<open>must_have_shape\<close>).
\<close>

definition check_shape :: "ndarray \<Rightarrow> shape_spec \<Rightarrow> error + unit" where
  "check_shape a s =
     (if list_ex (shape_matches (shape a)) (shape_patterns s) then Inr () else Inl ValueError)"

text \<open>Python's \<^verbatim>\<open>len\<close>, a scalar counting as one element; \<open>None\<close> for an object that is
  neither a number, a sequence nor an array.\<close>

fun py_len :: "pyobj \<Rightarrow> nat option" where
  "py_len (PList xs) = Some (length xs)"
| "py_len (PTuple xs) = Some (length xs)"
| "py_len (PArray a) = Some (case shape a of [] \<Rightarrow> 1 | n # _ \<Rightarrow> n)"
| "py_len (PBool _) = Some 1"
| "py_len (PInt _) = Some 1"
| "py_len (PFloat _) = Some 1"
| "py_len _ = None"

text \<open>
  Modelled from the spec: \<^verbatim>\<open>check_length\<close> with \<^verbatim>\<open>allow_scalar=True\<close> (spec 4.2): the
  size along the first axis must be one of the exact values, and lie within the
  minimum and the maximum; a scalar has length 1.
\<close>

definition check_length ::
  "pyobj \<Rightarrow> int list option \<Rightarrow> int option \<Rightarrow> int option \<Rightarrow> error + unit" where
  "check_length arr exact_length min_length max_length =
     (case py_len arr of
        None \<Rightarrow> Inl TypeError
      | Some n \<Rightarrow>
          if (case exact_length of None \<Rightarrow> False | Some ls \<Rightarrow> int n \<notin> set ls) then Inl ValueError
          else if (case min_length of None \<Rightarrow> False | Some m \<Rightarrow> int n < m) then Inl ValueError
          else if (case max_length of None \<Rightarrow> False | Some m \<Rightarrow> m < int n) then Inl ValueError
          else Inr ())"

text \<open>Modelled from the spec: \<^verbatim>\<open>check_nonnegative\<close> (spec 4.2): all elements \<open>\<ge> 0\<close>.\<close>

definition check_nonnegative :: "ndarray \<Rightarrow> error + unit" where
  "check_nonnegative a = (if list_all (num_le (Fin 0)) (data a) then Inr () else Inl ValueError)"

text \<open>Modelled from the spec: \<^verbatim>\<open>check_finite\<close> (spec 4.2): no element is infinite or
  not-a-number.\<close>

definition check_finite :: "ndarray \<Rightarrow> error + unit" where
  "check_finite a = (if list_all is_finite (data a) then Inr () else Inl ValueError)"

text \<open>Modelled from the spec: \<^verbatim>\<open>check_integer\<close> with \<^verbatim>\<open>strict=False\<close> (spec 4.2): every
  element equals its own floor.\<close>

definition check_integer :: "ndarray \<Rightarrow> error + unit" where
  "check_integer a =
     (if list_all (\<lambda>x. num_eq x (num_floor x)) (data a) then Inr () else Inl ValueError)"

text \<open>
  Modelled from the spec: \<^verbatim>\<open>check_range\<close> (spec 4.2): all elements lie within
  \<open>[lo, hi]\<close>, each bound excluded when its strict flag is set.
\<close>

definition check_range :: "ndarray \<Rightarrow> number \<times> number \<Rightarrow> bool \<Rightarrow> bool \<Rightarrow> error + unit" where
  "check_range a rng strict_lower strict_upper =
     (if list_all (\<lambda>x. (if strict_lower then num_lt (fst rng) x else num_le (fst rng) x)
                      \<and> (if strict_upper then num_lt x (snd rng) else num_le x (snd rng)))
           (data a)
      then Inr () else Inl ValueError)"

definition in_order :: "bool \<Rightarrow> bool \<Rightarrow> number \<Rightarrow> number \<Rightarrow> bool" where
  "in_order ascending strict x y =
     (if ascending then (if strict then num_lt x y else num_le x y)
      else (if strict then num_lt y x else num_le y x))"

text \<open>
  Modelled from the spec: \<^verbatim>\<open>check_sorted\<close> (spec 4.2): the elements along the declared
  axis are monotonic; strict forbids ties. An element and its successor along axis \<open>k\<close>
  are \<open>stride\<close> apart in row-major order. A 0-dimensional array is sorted; an axis out
  of range is a \<^verbatim>\<open>ValueError\<close>.
\<close>

definition check_sorted :: "ndarray \<Rightarrow> bool \<Rightarrow> bool \<Rightarrow> int \<Rightarrow> error + unit" where
  "check_sorted a ascending strict axis =
     (let nd = int (length (shape a));
          k = nat (if axis < 0 then axis + nd else axis);
          dk = shape a ! k;
          stride = prod_list (drop (Suc k) (shape a))
      in if nd = 0 then Inr ()
         else if axis < - nd \<or> nd \<le> axis then Inl ValueError
         else if list_all (\<lambda>i. if Suc ((i div stride) mod dk) < dk
                                then in_order ascending strict (data a ! i) (data a ! (i + stride))
                                else True)
                   [0..<length (data a)]
           then Inr () else Inl ValueError)"

section \<open>\<^verbatim>\<open>validate_array\<close>\<close>

text \<open>
  Lines 276-339, statement by statement. The length check (lines 295-307) is given
  \<^verbatim>\<open>array\<close>, the caller's input, where every other check is given \<^verbatim>\<open>array_out\<close>.
  \<^verbatim>\<open>array_out.shape != reshape_to\<close> compares a tuple with the parameter as passed, so it
  holds whenever the parameter is an integer. \<^verbatim>\<open>if must_be_sorted\<close> is Python's truth
  test: \<^verbatim>\<open>False\<close> and the empty \<^verbatim>\<open>dict\<close> skip the check.
\<close>

definition validate_array :: "pyobj \<Rightarrow> config \<Rightarrow> error + outval" where
  "validate_array array c =
     err_bind (cast_to_numpy array (as_any c) (copy c) (must_be_real c)) (\<lambda>a0.
     err_bind (case must_have_dtype c of None \<Rightarrow> Inr ()
               | Some ts \<Rightarrow> check_subdtype (dtype a0) ts) (\<lambda>_.
     err_bind (case must_have_shape c of None \<Rightarrow> Inr ()
               | Some s \<Rightarrow> check_shape a0 s) (\<lambda>_.
     err_bind (case reshape_to c of None \<Rightarrow> Inr a0
               | Some r \<Rightarrow> if shape_tuple a0 \<noteq> r then np_reshape a0 r else Inr a0) (\<lambda>a1.
     err_bind (case broadcast_to c of None \<Rightarrow> Inr a1
               | Some b \<Rightarrow> if shape_tuple a1 \<noteq> b then np_broadcast_to a1 b else Inr a1) (\<lambda>a2.
     err_bind (if must_have_length c \<noteq> None \<or> must_have_min_length c \<noteq> None
                  \<or> must_have_max_length c \<noteq> None
               then check_length array (must_have_length c) (must_have_min_length c)
                      (must_have_max_length c)
               else Inr ()) (\<lambda>_.
     err_bind (if must_be_nonnegative c then check_nonnegative a2 else Inr ()) (\<lambda>_.
     err_bind (if must_be_finite c then check_finite a2 else Inr ()) (\<lambda>_.
     err_bind (if must_be_integer c then check_integer a2 else Inr ()) (\<lambda>_.
     err_bind (case must_be_in_range c of None \<Rightarrow> Inr ()
               | Some rng \<Rightarrow> check_range a2 rng (strict_lower_bound c) (strict_upper_bound c)) (\<lambda>_.
     err_bind (case must_be_sorted c of
                 SortBool b \<Rightarrow> if b then check_sorted a2 True False (- 1) else Inr ()
               | SortDict asc str ax \<Rightarrow>
                   if asc = None \<and> str = None \<and> ax = None then Inr ()
                   else check_sorted a2 (case asc of None \<Rightarrow> True | Some v \<Rightarrow> v)
                          (case str of None \<Rightarrow> False | Some v \<Rightarrow> v)
                          (case ax of None \<Rightarrow> - 1 | Some v \<Rightarrow> v)) (\<lambda>_.
     (let a3 = (case dtype_out c of None \<Rightarrow> a2 | Some t \<Rightarrow> astype a2 (np_dtype t))
      in if to_tuple c then Inr (OPy (cast_to_tuple a3))
         else if to_list c then Inr (OPy (tolist a3))
         else Inr (OArr a3)))))))))))))"

section \<open>Keyword arguments and the specialized validators\<close>

text \<open>
  \<^verbatim>\<open>**kwargs\<close>: one entry for each keyword of \<^verbatim>\<open>validate_array\<close>, \<open>None\<close> when the key is
  absent. A key passed with the value \<^verbatim>\<open>None\<close> is present: \<open>Some None\<close>.
\<close>

record kwargs =
  kw_must_have_shape :: "(shape_spec option) option"
  kw_must_have_dtype :: "(dtype_like list option) option"
  kw_must_have_length :: "(int list option) option"
  kw_must_have_min_length :: "(int option) option"
  kw_must_have_max_length :: "(int option) option"
  kw_must_be_nonnegative :: "(bool) option"
  kw_must_be_finite :: "(bool) option"
  kw_must_be_real :: "(bool) option"
  kw_must_be_integer :: "(bool) option"
  kw_must_be_sorted :: "(sort_like) option"
  kw_must_be_in_range :: "((number \<times> number) option) option"
  kw_strict_lower_bound :: "(bool) option"
  kw_strict_upper_bound :: "(bool) option"
  kw_reshape_to :: "(shape_like option) option"
  kw_broadcast_to :: "(shape_like option) option"
  kw_dtype_out :: "(dtype_like option) option"
  kw_as_any :: "(bool) option"
  kw_copy :: "(bool) option"
  kw_to_list :: "(bool) option"
  kw_to_tuple :: "(bool) option"

definition no_kwargs :: kwargs where
  "no_kwargs =
     \<lparr>kw_must_have_shape = None,
      kw_must_have_dtype = None,
      kw_must_have_length = None,
      kw_must_have_min_length = None,
      kw_must_have_max_length = None,
      kw_must_be_nonnegative = None,
      kw_must_be_finite = None,
      kw_must_be_real = None,
      kw_must_be_integer = None,
      kw_must_be_sorted = None,
      kw_must_be_in_range = None,
      kw_strict_lower_bound = None,
      kw_strict_upper_bound = None,
      kw_reshape_to = None,
      kw_broadcast_to = None,
      kw_dtype_out = None,
      kw_as_any = None,
      kw_copy = None,
      kw_to_list = None,
      kw_to_tuple = None\<rparr>"

text \<open>\<^verbatim>\<open>validate_array(array, **kwargs)\<close>: an absent key takes the default of the signature.\<close>

definition config_of :: "kwargs \<Rightarrow> config" where
  "config_of kw =
     \<lparr>must_have_shape = (case kw_must_have_shape kw of None \<Rightarrow> None | Some v \<Rightarrow> v),
      must_have_dtype = (case kw_must_have_dtype kw of None \<Rightarrow> None | Some v \<Rightarrow> v),
      must_have_length = (case kw_must_have_length kw of None \<Rightarrow> None | Some v \<Rightarrow> v),
      must_have_min_length = (case kw_must_have_min_length kw of None \<Rightarrow> None | Some v \<Rightarrow> v),
      must_have_max_length = (case kw_must_have_max_length kw of None \<Rightarrow> None | Some v \<Rightarrow> v),
      must_be_nonnegative = (case kw_must_be_nonnegative kw of None \<Rightarrow> False | Some v \<Rightarrow> v),
      must_be_finite = (case kw_must_be_finite kw of None \<Rightarrow> False | Some v \<Rightarrow> v),
      must_be_real = (case kw_must_be_real kw of None \<Rightarrow> True | Some v \<Rightarrow> v),
      must_be_integer = (case kw_must_be_integer kw of None \<Rightarrow> False | Some v \<Rightarrow> v),
      must_be_sorted = (case kw_must_be_sorted kw of None \<Rightarrow> SortBool False | Some v \<Rightarrow> v),
      must_be_in_range = (case kw_must_be_in_range kw of None \<Rightarrow> None | Some v \<Rightarrow> v),
      strict_lower_bound = (case kw_strict_lower_bound kw of None \<Rightarrow> False | Some v \<Rightarrow> v),
      strict_upper_bound = (case kw_strict_upper_bound kw of None \<Rightarrow> False | Some v \<Rightarrow> v),
      reshape_to = (case kw_reshape_to kw of None \<Rightarrow> None | Some v \<Rightarrow> v),
      broadcast_to = (case kw_broadcast_to kw of None \<Rightarrow> None | Some v \<Rightarrow> v),
      dtype_out = (case kw_dtype_out kw of None \<Rightarrow> None | Some v \<Rightarrow> v),
      as_any = (case kw_as_any kw of None \<Rightarrow> True | Some v \<Rightarrow> v),
      copy = (case kw_copy kw of None \<Rightarrow> False | Some v \<Rightarrow> v),
      to_list = (case kw_to_list kw of None \<Rightarrow> False | Some v \<Rightarrow> v),
      to_tuple = (case kw_to_tuple kw of None \<Rightarrow> False | Some v \<Rightarrow> v)\<rparr>"

definition validate_array_kw :: "pyobj \<Rightarrow> kwargs \<Rightarrow> error + outval" where
  "validate_array_kw array kw = validate_array array (config_of kw)"

text \<open>\<^verbatim>\<open>kwargs.setdefault(key, v)\<close>; the key is given by its selector and update.\<close>

definition setdefault ::
  "(kwargs \<Rightarrow> 'a option) \<Rightarrow> (('a option \<Rightarrow> 'a option) \<Rightarrow> kwargs \<Rightarrow> kwargs) \<Rightarrow> kwargs \<Rightarrow> 'a \<Rightarrow> kwargs" where
  "setdefault get upd kw v = (case get kw of None \<Rightarrow> upd (\<lambda>_. Some v) kw | Some _ \<Rightarrow> kw)"

text \<open>
  Lines 1053-1063: \<^verbatim>\<open>val = kwargs.pop(key, default)\<close>, \<^verbatim>\<open>ValueError\<close> when
  \<^verbatim>\<open>val != default\<close>, else \<^verbatim>\<open>kwargs[key] = default\<close>.
\<close>

definition set_default_kwarg_mandatory ::
  "(kwargs \<Rightarrow> 'a option) \<Rightarrow> (('a option \<Rightarrow> 'a option) \<Rightarrow> kwargs \<Rightarrow> kwargs) \<Rightarrow> kwargs \<Rightarrow> 'a
     \<Rightarrow> error + kwargs" where
  "set_default_kwarg_mandatory get upd kw dflt =
     (let val = (case get kw of None \<Rightarrow> dflt | Some v \<Rightarrow> v)
      in if val \<noteq> dflt then Inl ValueError else Inr (upd (\<lambda>_. Some dflt) kw))"

text \<open>Lines 650-663.\<close>

definition validate_number :: "pyobj \<Rightarrow> bool \<Rightarrow> kwargs \<Rightarrow> error + outval" where
  "validate_number num reshape kwargs0 =
     (let kw1 = setdefault kw_to_list kw_to_list_update kwargs0 True;
          kw2 = setdefault kw_must_be_finite kw_must_be_finite_update kw1 True;
          kw3 = setdefault kw_must_be_real kw_must_be_real_update kw2 True
      in err_bind
           (if reshape
            then set_default_kwarg_mandatory kw_reshape_to kw_reshape_to_update kw3
                   (Some (STuple []))
            else Inr kw3) (\<lambda>kw4.
         err_bind
           (set_default_kwarg_mandatory kw_must_have_shape kw_must_have_shape_update kw4
              (Some (if reshape then ShapeList [STuple [], STuple [1]] else OneShape (STuple []))))
           (\<lambda>kw5. validate_array_kw num kw5)))"

text \<open>Lines 707-712.\<close>

definition validate_data_range :: "pyobj \<Rightarrow> kwargs \<Rightarrow> error + outval" where
  "validate_data_range rng kwargs0 =
     err_bind (set_default_kwarg_mandatory kw_must_have_shape kw_must_have_shape_update kwargs0
                 (Some (OneShape (SInt 2)))) (\<lambda>kw1.
     err_bind (set_default_kwarg_mandatory kw_must_be_sorted kw_must_be_sorted_update kw1
                 (SortBool True)) (\<lambda>kw2.
     validate_array_kw rng
       (if kw_to_list kw2 = None then setdefault kw_to_tuple kw_to_tuple_update kw2 True
        else kw2)))"

text \<open>Lines 778-786.\<close>

definition validate_arrayNx3 :: "pyobj \<Rightarrow> bool \<Rightarrow> kwargs \<Rightarrow> error + outval" where
  "validate_arrayNx3 array reshape kwargs0 =
     err_bind
       (if reshape
        then set_default_kwarg_mandatory kw_reshape_to kw_reshape_to_update kwargs0
               (Some (STuple [- 1, 3]))
        else Inr kwargs0) (\<lambda>kw1.
     err_bind
       (set_default_kwarg_mandatory kw_must_have_shape kw_must_have_shape_update kw1
          (Some (if reshape then ShapeList [SInt 3, STuple [- 1, 3]]
                 else OneShape (STuple [- 1, 3]))))
       (\<lambda>kw2. validate_array_kw array kw2))"

text \<open>Lines 859-866. \<^verbatim>\<open>(-1)\<close> is the integer \<open>-1\<close>, not a tuple.\<close>

definition validate_arrayN :: "pyobj \<Rightarrow> bool \<Rightarrow> kwargs \<Rightarrow> error + outval" where
  "validate_arrayN array reshape kwargs0 =
     err_bind
       (if reshape
        then set_default_kwarg_mandatory kw_reshape_to kw_reshape_to_update kwargs0
               (Some (SInt (- 1)))
        else Inr kwargs0) (\<lambda>kw1.
     err_bind
       (set_default_kwarg_mandatory kw_must_have_shape kw_must_have_shape_update kw1
          (Some (if reshape
                 then ShapeList [STuple [], SInt (- 1), STuple [1, - 1], STuple [- 1, 1]]
                 else OneShape (SInt (- 1)))))
       (\<lambda>kw2. validate_array_kw array kw2))"

text \<open>
  Lines 950-959. \<^verbatim>\<open>kwargs['dtype_out'] is not int\<close> holds of every value but the type
  \<^verbatim>\<open>int\<close>; the value \<^verbatim>\<open>None\<close> stands for numpy's default dtype, a floating one.
\<close>

definition validate_arrayN_uintlike :: "pyobj \<Rightarrow> bool \<Rightarrow> kwargs \<Rightarrow> error + outval" where
  "validate_arrayN_uintlike array reshape kwargs0 =
     (let kw1 = setdefault kw_dtype_out kw_dtype_out_update kwargs0 (Some TInt)
      in err_bind
           (if kw_dtype_out kw1 \<noteq> Some (Some TInt)
            then check_subdtype
                   (case kw_dtype_out kw1 of Some (Some t) \<Rightarrow> np_dtype t | _ \<Rightarrow> DFloat)
                   [TInteger]
            else Inr ()) (\<lambda>_.
         err_bind (set_default_kwarg_mandatory kw_must_be_integer kw_must_be_integer_update kw1
                     True) (\<lambda>kw2.
         err_bind (set_default_kwarg_mandatory kw_must_be_nonnegative
                     kw_must_be_nonnegative_update kw2 True) (\<lambda>kw3.
         validate_arrayN array reshape kw3))))"

text \<open>Lines 1038-1050.\<close>

definition validate_array3 :: "pyobj \<Rightarrow> bool \<Rightarrow> bool \<Rightarrow> kwargs \<Rightarrow> error + outval" where
  "validate_array3 array reshape broadcast kwargs0 =
     (let shape0 = [STuple [3]];
          shape1 = (if reshape then shape0 @ [STuple [1, 3], STuple [3, 1]] else shape0);
          shape2 = (if broadcast then shape1 @ [STuple [], STuple [1]] else shape1)
      in err_bind
           (if reshape
            then set_default_kwarg_mandatory kw_reshape_to kw_reshape_to_update kwargs0
                   (Some (SInt (- 1)))
            else Inr kwargs0) (\<lambda>kw1.
         err_bind
           (if broadcast
            then set_default_kwarg_mandatory kw_broadcast_to kw_broadcast_to_update kw1
                   (Some (STuple [3]))
            else Inr kw1) (\<lambda>kw2.
         err_bind
           (set_default_kwarg_mandatory kw_must_have_shape kw_must_have_shape_update kw2
              (Some (ShapeList shape2)))
           (\<lambda>kw3. validate_array_kw array kw3))))"

section \<open>\<^verbatim>\<open>validate_axes\<close>\<close>

text \<open>numpy on vectors of three elements and on arrays of row vectors.\<close>

text \<open>An array-valued argument of a numpy function is converted with \<^verbatim>\<open>np.asarray\<close>.\<close>

definition np_asarray :: "outval \<Rightarrow> error + ndarray" where
  "np_asarray v = (case v of OArr a \<Rightarrow> Inr a | OPy p \<Rightarrow> cast_to_numpy p True False False)"

text \<open>\<^verbatim>\<open>arr[i]\<close> for an array of at least one dimension: the \<open>i\<close>-th block along the
  first axis.\<close>

definition row :: "ndarray \<Rightarrow> nat \<Rightarrow> ndarray" where
  "row a i =
     (let m = prod_list (tl (shape a))
      in \<lparr>shape = tl (shape a), dtype = dtype a, data = take m (drop (i * m) (data a))\<rparr>)"

text \<open>
  Arithmetic on integer arrays is 64-bit two's complement arithmetic: a result out of
  range wraps around. Wrapping the exact result once gives what wrapping after every
  operation gives.
\<close>

definition wrap64 :: "int \<Rightarrow> int" where
  "wrap64 i = (i + 2 ^ 63) mod 2 ^ 64 - 2 ^ 63"

text \<open>The result of an arithmetic operation as an array of kind \<open>d\<close> holds it.\<close>

definition store :: "dtype \<Rightarrow> number \<Rightarrow> number" where
  "store d x =
     (case d of
        DInt \<Rightarrow> (case x of Fin r \<Rightarrow> Fin (of_int (wrap64 \<lfloor>r\<rfloor>)) | _ \<Rightarrow> x)
      | _ \<Rightarrow> x)"

text \<open>The cross product of two vectors of three elements, computed in kind \<open>d\<close>.\<close>

definition cross3 :: "dtype \<Rightarrow> number list \<Rightarrow> number list \<Rightarrow> number list" where
  "cross3 d u v =
     map (store d)
       [num_sub (num_mul (u ! 1) (v ! 2)) (num_mul (u ! 2) (v ! 1)),
        num_sub (num_mul (u ! 2) (v ! 0)) (num_mul (u ! 0) (v ! 2)),
        num_sub (num_mul (u ! 0) (v ! 1)) (num_mul (u ! 1) (v ! 0))]"

text \<open>\<^verbatim>\<open>np.cross\<close> of two vectors of three elements, in their common kind; \<^verbatim>\<open>ValueError\<close>
  for other shapes, and \<^verbatim>\<open>TypeError\<close> for two boolean vectors (numpy has no boolean
  subtraction).\<close>

definition np_cross :: "ndarray \<Rightarrow> ndarray \<Rightarrow> error + ndarray" where
  "np_cross u v =
     (if length (data u) = 3 \<and> length (data v) = 3 \<and> shape u = [3] \<and> shape v = [3]
      then (if dtype_join (dtype u) (dtype v) = DBool then Inl TypeError
            else Inr \<lparr>shape = [3], dtype = dtype_join (dtype u) (dtype v),
                      data = cross3 (dtype_join (dtype u) (dtype v)) (data u) (data v)\<rparr>)
      else Inl ValueError)"

text \<open>\<^verbatim>\<open>np.vstack\<close> of three vectors of the same length.\<close>

definition np_vstack3 :: "ndarray \<Rightarrow> ndarray \<Rightarrow> ndarray \<Rightarrow> error + ndarray" where
  "np_vstack3 u v w =
     (if shape u = shape v \<and> shape v = shape w \<and> length (shape u) = 1
      then Inr \<lparr>shape = 3 # shape u,
                dtype = dtype_join (dtype u) (dtype_join (dtype v) (dtype w)),
                data = data u @ data v @ data w\<rparr>
      else Inl ValueError)"

text \<open>\<^verbatim>\<open>np.dot\<close> of two vectors of kind \<open>d\<close>: the sum of the products, wrapped for
  integers; for booleans, whether some position holds \<open>True\<close> in both.\<close>

definition np_dot :: "dtype \<Rightarrow> number list \<Rightarrow> number list \<Rightarrow> number" where
  "np_dot d u v =
     (case d of
        DBool \<Rightarrow> Fin (if list_ex (\<lambda>p. fst p \<noteq> Fin 0 \<and> snd p \<noteq> Fin 0) (zip u v) then 1 else 0)
      | _ \<Rightarrow> store d (foldr num_add (map2 num_mul u v) (Fin 0)))"

text \<open>\<^verbatim>\<open>np.isclose(a, b)\<close> with numpy's default tolerances \<open>rtol = 1e-5\<close> and
  \<open>atol = 1e-8\<close>: \<open>|a - b| \<le> atol + rtol * |b|\<close> on finite values, equality otherwise.\<close>

definition isclose :: "number \<Rightarrow> number \<Rightarrow> bool" where
  "isclose a b =
     (if is_finite a \<and> is_finite b
      then num_le (num_abs (num_sub a b))
             (num_add (Fin (1 / 100000000)) (num_mul (Fin (1 / 100000)) (num_abs b)))
      else num_eq a b)"

definition allclose :: "number list \<Rightarrow> number list \<Rightarrow> bool" where
  "allclose u v = list_all2 isclose u v"

text \<open>\<^verbatim>\<open>np.linalg.norm\<close> of a vector; it computes in floating point, whatever the kind
  of the vector.\<close>

definition np_norm :: "number list \<Rightarrow> number" where
  "np_norm u = num_sqrt (np_dot DFloat u u)"

text \<open>\<^verbatim>\<open>axes_array / np.linalg.norm(axes_array, axis=1).reshape((3, 1))\<close>: each of the three
  rows divided by its norm; the result is floating.\<close>

definition normalize_rows :: "ndarray \<Rightarrow> ndarray" where
  "normalize_rows a =
     \<lparr>shape = shape a, dtype = DFloat,
      data = concat (map (\<lambda>i. map (\<lambda>x. num_div x (np_norm (data (row a i)))) (data (row a i)))
                      [0, 1, 2])\<rparr>"

text \<open>
  Modelled from the spec: \<^verbatim>\<open>check_contains\<close>, imported from
  \<^verbatim>\<open>pyvista.core.validation.check\<close> (line 28), whose source is absent. The spec has no
  entry of its own for it; by spec 4.2 a value checker fails with \<^verbatim>\<open>ValueError\<close>, here
  when the item is not in the container.
\<close>

definition check_contains :: "string \<Rightarrow> string list \<Rightarrow> error + unit" where
  "check_contains item container = (if item \<in> set container then Inr () else Inl ValueError)"

text \<open>
  Lines 414-483. \<^verbatim>\<open>*axes\<close> is the list of positional arguments. The vectors are the
  rows of the one array (one argument) or validated one by one with \<^verbatim>\<open>validate_array3\<close>
  (two or three arguments); \<^verbatim>\<open>vector2\<close> stays \<^verbatim>\<open>None\<close> when only two are given.
  \<open>normalize_arg\<close> is the parameter \<^verbatim>\<open>normalize\<close>. Lines 474-479 test the orientation
  under \<^verbatim>\<open>if must_have_orientation\<close>, which holds of \<^verbatim>\<open>'right'\<close> and \<^verbatim>\<open>'left'\<close>, the only
  strings that pass line 415: the two comparisons with \<open>Some\<close> say the same.
\<close>

definition validate_axes ::
  "pyobj list \<Rightarrow> bool \<Rightarrow> bool \<Rightarrow> string option \<Rightarrow> error + ndarray" where
  "validate_axes axes normalize_arg must_be_orthogonal must_have_orientation =
     err_bind (case must_have_orientation of None \<Rightarrow> Inr ()
               | Some s \<Rightarrow> check_contains s [''right'', ''left'']) (\<lambda>_.
     err_bind
       (case axes of
          [a] \<Rightarrow>
            err_bind (validate_array a
                        (default_config\<lparr>must_have_shape := Some (ShapeList [STuple [2, 3], STuple [3, 3]]),
                                        dtype_out := Some TFloating\<rparr>)) (\<lambda>r.
            err_bind (np_asarray r) (\<lambda>axes_array.
              Inr (row axes_array 0, row axes_array 1,
                   if py_len (PArray axes_array) = Some 3 then Some (row axes_array 2) else None)))
        | [a, b] \<Rightarrow>
            err_bind (validate_array3 a True False no_kwargs) (\<lambda>r0.
            err_bind (np_asarray r0) (\<lambda>vector0.
            err_bind (validate_array3 b True False no_kwargs) (\<lambda>r1.
            err_bind (np_asarray r1) (\<lambda>vector1.
              Inr (vector0, vector1, None)))))
        | [a, b, c] \<Rightarrow>
            err_bind (validate_array3 a True False no_kwargs) (\<lambda>r0.
            err_bind (np_asarray r0) (\<lambda>vector0.
            err_bind (validate_array3 b True False no_kwargs) (\<lambda>r1.
            err_bind (np_asarray r1) (\<lambda>vector1.
            err_bind (validate_array3 c True False no_kwargs) (\<lambda>r2.
            err_bind (np_asarray r2) (\<lambda>vector2.
              Inr (vector0, vector1, Some vector2)))))))
        | _ \<Rightarrow> Inl ValueError) (\<lambda>(vector0, vector1, vector2_opt).
     err_bind
       (case vector2_opt of
          Some v \<Rightarrow> Inr v
        | None \<Rightarrow>
            (case must_have_orientation of
               None \<Rightarrow> Inl ValueError
             | Some s \<Rightarrow>
                 if s = ''right'' then np_cross vector0 vector1 else np_cross vector1 vector0))
       (\<lambda>vector2.
     err_bind (np_vstack3 vector0 vector1 vector2) (\<lambda>axes_array.
     err_bind (check_finite axes_array) (\<lambda>_.
       if isclose (np_dot (dtype axes_array) (data (row axes_array 0)) (data (row axes_array 1)))
            (Fin 1)
          \<or> isclose (np_dot (dtype axes_array) (data (row axes_array 0)) (data (row axes_array 2)))
               (Fin 1)
       then Inl ValueError
       else if list_ex (\<lambda>i. list_all (\<lambda>x. isclose x (Fin 0)) (data (row axes_array i))) [0, 1, 2]
       then Inl ValueError
       else
         (let axes_norm = normalize_rows axes_array;
              cross_0_1 = cross3 DFloat (data (row axes_norm 0)) (data (row axes_norm 1));
              cross_1_2 = cross3 DFloat (data (row axes_norm 1)) (data (row axes_norm 2));
              dot = np_dot DFloat cross_0_1 (data (row axes_norm 2))
          in if must_be_orthogonal \<and>
                \<not> ((allclose cross_0_1 (data (row axes_norm 2))
                      \<or> allclose cross_0_1 (map num_neg (data (row axes_norm 2))))
                   \<and> (allclose cross_1_2 (data (row axes_norm 0))
                      \<or> allclose cross_1_2 (map num_neg (data (row axes_norm 0)))))
             then Inl ValueError
             else if must_have_orientation = Some ''right'' \<and> num_lt dot (Fin 0)
             then Inl ValueError
             else if must_have_orientation = Some ''left'' \<and> num_lt (Fin 0) dot
             then Inl ValueError
             else if normalize_arg then Inr axes_norm
             else Inr axes_array))))))"

section \<open>\<^verbatim>\<open>validate_transform4x4\<close>\<close>

text \<open>
  A transform-like input: one of the toolkit's matrix objects, given by its
  \<^verbatim>\<open>GetElement(i, j)\<close> (for \<^verbatim>\<open>vtkTransform\<close>, that of its \<^verbatim>\<open>GetMatrix()\<close>), or any other
  Python object.
\<close>

datatype transform_like =
    VtkMatrix4x4 "nat \<Rightarrow> nat \<Rightarrow> number"
  | VtkMatrix3x3 "nat \<Rightarrow> nat \<Rightarrow> number"
  | VtkTransform "nat \<Rightarrow> nat \<Rightarrow> number"
  | Other pyobj

text \<open>Lines 585-593, for a square shape \<open>(n, n)\<close>.\<close>

definition array_from_vtkmatrix :: "(nat \<Rightarrow> nat \<Rightarrow> number) \<Rightarrow> nat \<Rightarrow> ndarray" where
  "array_from_vtkmatrix get_element n =
     \<lparr>shape = [n, n], dtype = DFloat,
      data = concat (map (\<lambda>i. map (\<lambda>j. get_element i j) [0..<n]) [0..<n])\<rparr>"

text \<open>\<^verbatim>\<open>np.eye(n)\<close>.\<close>

definition np_eye :: "nat \<Rightarrow> ndarray" where
  "np_eye n =
     \<lparr>shape = [n, n], dtype = DFloat,
      data = concat (map (\<lambda>i. map (\<lambda>j. Fin (if i = j then 1 else 0)) [0..<n]) [0..<n])\<rparr>"

text \<open>\<^verbatim>\<open>array[:3, :3] = m\<close> for a 4x4 \<^verbatim>\<open>array\<close> and a 3x3 \<^verbatim>\<open>m\<close>: the top-left block is
  overwritten, the other entries and the kind of \<^verbatim>\<open>array\<close> stay.\<close>

definition set_block3 :: "ndarray \<Rightarrow> ndarray \<Rightarrow> ndarray" where
  "set_block3 array m =
     array\<lparr>data :=
       concat (map (\<lambda>i. map (\<lambda>j. if i < 3 \<and> j < 3 then data m ! (3 * i + j)
                                   else data array ! (4 * i + j)) [0..<4]) [0..<4])\<rparr>"

text \<open>A \<^verbatim>\<open>try\<close> whose \<^verbatim>\<open>except ValueError\<close> raises \<^verbatim>\<open>TypeError\<close>.\<close>

definition value_error_as_type_error :: "error + 'a \<Rightarrow> error + 'a" where
  "value_error_as_type_error r = (case r of Inl ValueError \<Rightarrow> Inl TypeError | _ \<Rightarrow> r)"

text \<open>Lines 513-540. \<^verbatim>\<open>check_string(name)\<close> holds of every \<^verbatim>\<open>name\<close> that is a string.\<close>

definition validate_transform4x4 :: "transform_like \<Rightarrow> error + ndarray" where
  "validate_transform4x4 transform =
     (let array = np_eye 4
      in case transform of
           VtkMatrix4x4 g \<Rightarrow> Inr (array_from_vtkmatrix g 4)
         | VtkMatrix3x3 g \<Rightarrow> Inr (set_block3 array (array_from_vtkmatrix g 3))
         | VtkTransform g \<Rightarrow> Inr (array_from_vtkmatrix g 4)
         | Other obj \<Rightarrow>
             value_error_as_type_error
               (err_bind (validate_array obj
                            (default_config\<lparr>must_have_shape := Some (ShapeList [STuple [3, 3], STuple [4, 4]]),
                                            must_be_finite := True\<rparr>)) (\<lambda>r.
                err_bind (np_asarray r) (\<lambda>valid_array.
                  if shape_tuple valid_array = STuple [3, 3]
                  then Inr (set_block3 array valid_array)
                  else Inr valid_array))))"

section \<open>Predicates of the specification\<close>

text \<open>A bare scalar, or a tuple of objects of that form: the "nested tuple" of spec 4.4.\<close>

fun tuple_form :: "pyobj \<Rightarrow> bool" where
  "tuple_form (PTuple xs) = list_all tuple_form xs"
| "tuple_form (PList xs) = False"
| "tuple_form (PArray a) = False"
| "tuple_form _ = True"

text \<open>
  "A canonical array that already satisfies a configuration's constraints" (spec 8,
  property 1): every checker that the configuration declares passes on the array.
\<close>

definition satisfies_constraints :: "config \<Rightarrow> ndarray \<Rightarrow> bool" where
  "satisfies_constraints c a =
     ((case must_have_dtype c of None \<Rightarrow> True | Some ts \<Rightarrow> check_subdtype (dtype a) ts = Inr ())
      \<and> (case must_have_shape c of None \<Rightarrow> True | Some s \<Rightarrow> check_shape a s = Inr ())
      \<and> check_length (PArray a) (must_have_length c) (must_have_min_length c)
           (must_have_max_length c) = Inr ()
      \<and> (if must_be_nonnegative c then check_nonnegative a = Inr () else True)
      \<and> (if must_be_finite c then check_finite a = Inr () else True)
      \<and> (if must_be_integer c then check_integer a = Inr () else True)
      \<and> (case must_be_in_range c of None \<Rightarrow> True
          | Some rng \<Rightarrow> check_range a rng (strict_lower_bound c) (strict_upper_bound c) = Inr ())
      \<and> (case must_be_sorted c of
            SortBool b \<Rightarrow> (if b then check_sorted a True False (- 1) = Inr () else True)
          | SortDict asc str ax \<Rightarrow>
              (if asc = None \<and> str = None \<and> ax = None then True
               else check_sorted a (case asc of None \<Rightarrow> True | Some v \<Rightarrow> v)
                      (case str of None \<Rightarrow> False | Some v \<Rightarrow> v)
                      (case ax of None \<Rightarrow> - 1 | Some v \<Rightarrow> v) = Inr ())))"

text \<open>A caller overrides a locked parameter: the key is passed, with a value other than
  the locked one.\<close>

definition overridden :: "'a option \<Rightarrow> 'a \<Rightarrow> bool" where
  "overridden given locked = (case given of None \<Rightarrow> False | Some v \<Rightarrow> v \<noteq> locked)"

section \<open>Properties\<close>

lemma err_bind_Inl [simp]: "err_bind (Inl e) f = Inl e"
  by (simp add: err_bind_def)

lemma err_bind_Inr [simp]: "err_bind (Inr x) f = f x"
  by (simp add: err_bind_def)

lemma err_bind_eq_Inr: "err_bind m f = Inr y \<longleftrightarrow> (\<exists>x. m = Inr x \<and> f x = Inr y)"
  by (cases m) simp_all

lemmas eval_defs = validate_array_def cast_to_numpy_def seq_shape_def common_dtype_def
  check_shape_def shape_matches_def shape_patterns_def shape_dims_def shape_tuple_def
  np_reshape_def check_length_def default_config_def

subsection \<open>The shape check precedes the reshape\<close>

text \<open>
  C4. An input that coerces to an array of shape \<open>(3,)\<close> (and passes the dtype check, if
  one is declared) fails with \<^verbatim>\<open>ValueError\<close> under \<^verbatim>\<open>must_have_shape=(1,3)\<close>, whatever
  \<^verbatim>\<open>reshape_to\<close> is, \<^verbatim>\<open>(1,3)\<close> included: the shape is checked before any reshape.
\<close>

theorem shape_checked_before_reshape:
  assumes "cast_to_numpy array (as_any c) (copy c) (must_be_real c) = Inr a"
    and "shape a = [3]"
    and "(case must_have_dtype c of None \<Rightarrow> Inr ()
          | Some ts \<Rightarrow> check_subdtype (dtype a) ts) = Inr ()"
    and "must_have_shape c = Some (OneShape (STuple [1, 3]))"
  shows "validate_array array c = Inl ValueError"
  using assms
  by (simp add: validate_array_def check_shape_def shape_matches_def shape_patterns_def
      shape_dims_def)

theorem shape_checked_before_reshape_witness:
  "validate_array (PList [PInt 1, PInt 2, PInt 3])
     (default_config\<lparr>must_have_shape := Some (OneShape (STuple [1, 3])),
                     reshape_to := Some (STuple [1, 3])\<rparr>) = Inl ValueError"
  by (rule shape_checked_before_reshape
        [where a = "\<lparr>shape = [3], dtype = DInt, data = [Fin 1, Fin 2, Fin 3]\<rparr>"])
     (simp_all add: eval_defs)

subsection \<open>Range bounds\<close>

text \<open>
  C5. With \<^verbatim>\<open>must_be_in_range=[0,10]\<close> and nothing else declared, an array whose
  elements all lie in \<open>[0, 10]\<close>, the bounds included, is accepted and returned; an array
  that contains 0 is rejected with \<^verbatim>\<open>ValueError\<close> under \<^verbatim>\<open>strict_lower_bound=True\<close>, and
  one that contains 10 under \<^verbatim>\<open>strict_upper_bound=True\<close>.
\<close>

theorem range_bounds_inclusive_unless_strict:
  assumes "cast_to_numpy array True False True = Inr a"
  shows "(list_all (\<lambda>x. num_le (Fin 0) x \<and> num_le x (Fin 10)) (data a) \<longrightarrow>
            validate_array array (default_config\<lparr>must_be_in_range := Some (Fin 0, Fin 10)\<rparr>)
              = Inr (OArr a))
       \<and> (Fin 0 \<in> set (data a) \<longrightarrow>
            validate_array array (default_config\<lparr>must_be_in_range := Some (Fin 0, Fin 10),
                                                 strict_lower_bound := True\<rparr>) = Inl ValueError)
       \<and> (Fin 10 \<in> set (data a) \<longrightarrow>
            validate_array array (default_config\<lparr>must_be_in_range := Some (Fin 0, Fin 10),
                                                 strict_upper_bound := True\<rparr>) = Inl ValueError)"
  using assms
  by (auto simp add: validate_array_def default_config_def check_range_def num_lt_def
      list_all_iff)

theorem range_bounds_inclusive_unless_strict_witness:
  "validate_array (PList [PInt 0, PInt 10])
       (default_config\<lparr>must_be_in_range := Some (Fin 0, Fin 10)\<rparr>)
     = Inr (OArr \<lparr>shape = [2], dtype = DInt, data = [Fin 0, Fin 10]\<rparr>)
   \<and> validate_array (PList [PInt 0, PInt 10])
       (default_config\<lparr>must_be_in_range := Some (Fin 0, Fin 10), strict_lower_bound := True\<rparr>)
     = Inl ValueError
   \<and> validate_array (PList [PInt 0, PInt 10])
       (default_config\<lparr>must_be_in_range := Some (Fin 0, Fin 10), strict_upper_bound := True\<rparr>)
     = Inl ValueError"
proof -
  have h: "cast_to_numpy (PList [PInt 0, PInt 10]) True False True
             = Inr \<lparr>shape = [2], dtype = DInt, data = [Fin 0, Fin 10]\<rparr>"
    by (simp add: eval_defs)
  show ?thesis
    using range_bounds_inclusive_unless_strict [OF h] by simp
qed

subsection \<open>Output form\<close>

lemma tuple_form_py_scalar: "tuple_form (py_scalar d x)"
  by (cases d; cases x) simp_all

lemma tuple_form_nest:
  "list_all tuple_form xs \<Longrightarrow> tuple_form (nest PTuple sh xs)"
proof (induction sh arbitrary: xs)
  case Nil
  then show ?case by (cases xs) simp_all
next
  case (Cons n ns)
  have "list_all tuple_form (take k (drop j xs))" for k j
    using Cons.prems by (auto simp: list_all_iff dest: in_set_takeD in_set_dropD)
  then show ?case
    using Cons.IH by (simp add: list_all_iff)
qed

lemma tuple_form_cast_to_tuple: "tuple_form (cast_to_tuple a)"
  unfolding cast_to_tuple_def
  by (rule tuple_form_nest) (simp add: list_all_iff tuple_form_py_scalar)

lemma validate_array_to_tuple:
  "validate_array array (c\<lparr>to_list := l, to_tuple := True\<rparr>)
     = validate_array array (c\<lparr>to_list := l', to_tuple := True\<rparr>)"
  by (simp add: validate_array_def cong: option.case_cong sort_like.case_cong if_cong)

lemma validate_array_tuple_out:
  "validate_array array c = Inr out \<Longrightarrow> to_tuple c \<Longrightarrow> \<exists>a. out = OPy (cast_to_tuple a)"
  by (auto simp add: validate_array_def err_bind_eq_Inr Let_def)

lemma validate_array_array_out:
  "validate_array array c = Inr out \<Longrightarrow> \<not> to_tuple c \<Longrightarrow> \<not> to_list c \<Longrightarrow> \<exists>a. out = OArr a"
  by (auto simp add: validate_array_def err_bind_eq_Inr Let_def)

text \<open>
  C7. With \<^verbatim>\<open>to_list=True\<close> and \<^verbatim>\<open>to_tuple=True\<close> together, \<^verbatim>\<open>validate_array\<close> does what
  it does with \<^verbatim>\<open>to_tuple=True\<close> alone, and whatever it returns is one value, the validated
  array cast to nested tuples (a bare scalar for a 0-dimensional array): the tuple
  request takes precedence over the list request.
\<close>

theorem tuple_takes_precedence_over_list:
  "validate_array array (c\<lparr>to_list := True, to_tuple := True\<rparr>)
     = validate_array array (c\<lparr>to_list := False, to_tuple := True\<rparr>)
   \<and> (\<forall>out. validate_array array (c\<lparr>to_list := True, to_tuple := True\<rparr>) = Inr out \<longrightarrow>
        (\<exists>a. out = OPy (cast_to_tuple a) \<and> tuple_form (cast_to_tuple a)))"
proof (intro conjI allI impI)
  show "validate_array array (c\<lparr>to_list := True, to_tuple := True\<rparr>)
     = validate_array array (c\<lparr>to_list := False, to_tuple := True\<rparr>)"
    by (rule validate_array_to_tuple)
next
  fix out
  assume "validate_array array (c\<lparr>to_list := True, to_tuple := True\<rparr>) = Inr out"
  then obtain a where "out = OPy (cast_to_tuple a)"
    using validate_array_tuple_out by fastforce
  then show "\<exists>a. out = OPy (cast_to_tuple a) \<and> tuple_form (cast_to_tuple a)"
    using tuple_form_cast_to_tuple by blast
qed

theorem tuple_takes_precedence_over_list_witness:
  "validate_array (PList [PList [PInt 1, PInt 2]])
       (default_config\<lparr>to_list := True, to_tuple := True\<rparr>)
     = validate_array (PList [PList [PInt 1, PInt 2]])
         (default_config\<lparr>to_list := False, to_tuple := True\<rparr>)
   \<and> validate_array (PList [PList [PInt 1, PInt 2]])
       (default_config\<lparr>to_list := True, to_tuple := True\<rparr>)
     = Inr (OPy (PTuple [PTuple [PInt 1, PInt 2]]))"
  using tuple_takes_precedence_over_list [of "PList [PList [PInt 1, PInt 2]]" default_config]
  by (simp add: eval_defs cast_to_tuple_def)

subsection \<open>Two vectors and no orientation\<close>

lemmas kw_defs = validate_array3_def set_default_kwarg_mandatory_def no_kwargs_def
  validate_array_kw_def config_of_def

lemma validate_array3_no_kwargs_out:
  assumes "validate_array3 a True False no_kwargs = Inr r"
  shows "\<exists>v. r = OArr v"
proof -
  obtain kw where "validate_array_kw a kw = Inr r"
    and "kw_to_list kw = None" and "kw_to_tuple kw = None"
    using assms
    by (auto simp add: validate_array3_def set_default_kwarg_mandatory_def no_kwargs_def Let_def)
  then show ?thesis
    using validate_array_array_out [of a "config_of kw" r]
    by (simp add: validate_array_kw_def config_of_def)
qed

text \<open>
  C10. Called with exactly two vectors that \<^verbatim>\<open>validate_array3\<close> accepts and with
  \<^verbatim>\<open>must_have_orientation=None\<close>, \<^verbatim>\<open>validate_axes\<close> raises \<^verbatim>\<open>ValueError\<close>, whatever
  \<^verbatim>\<open>normalize\<close> and \<^verbatim>\<open>must_be_orthogonal\<close> are.
\<close>

theorem two_vectors_need_orientation:
  assumes "validate_array3 a True False no_kwargs = Inr r0"
    and "validate_array3 b True False no_kwargs = Inr r1"
  shows "validate_axes [a, b] normalize_arg must_be_orthogonal None = Inl ValueError"
proof -
  obtain v0 v1 where "r0 = OArr v0" "r1 = OArr v1"
    using assms validate_array3_no_kwargs_out by blast
  then show ?thesis
    using assms by (simp add: validate_axes_def np_asarray_def)
qed

theorem two_vectors_need_orientation_witness:
  "validate_axes [PList [PInt 1, PInt 0, PInt 0], PList [PInt 0, PInt 1, PInt 0]] True True None
     = Inl ValueError"
  by (rule two_vectors_need_orientation
        [where ?r0.0 = "OArr \<lparr>shape = [3], dtype = DInt, data = [Fin 1, Fin 0, Fin 0]\<rparr>"
           and ?r1.0 = "OArr \<lparr>shape = [3], dtype = DInt, data = [Fin 0, Fin 1, Fin 0]\<rparr>"])
     (simp_all add: kw_defs eval_defs)

subsection \<open>Deriving the third axis\<close>

lemmas axes_defs = validate_axes_def check_contains_def np_asarray_def row_def np_cross_def
  cross3_def np_vstack3_def np_dot_def isclose_def allclose_def np_norm_def normalize_rows_def
  check_finite_def num_sub_def num_lt_def num_eq_def Let_def

lemma validate_array3_100:
  "validate_array3 (PList [PInt 1, PInt 0, PInt 0]) True False no_kwargs
     = Inr (OArr \<lparr>shape = [3], dtype = DInt, data = [Fin 1, Fin 0, Fin 0]\<rparr>)"
  by (simp add: kw_defs eval_defs)

lemma validate_array3_010:
  "validate_array3 (PList [PInt 0, PInt 1, PInt 0]) True False no_kwargs
     = Inr (OArr \<lparr>shape = [3], dtype = DInt, data = [Fin 0, Fin 1, Fin 0]\<rparr>)"
  by (simp add: kw_defs eval_defs)

lemma validate_array3_001:
  "validate_array3 (PList [PInt 0, PInt 0, PInt 1]) True False no_kwargs
     = Inr (OArr \<lparr>shape = [3], dtype = DInt, data = [Fin 0, Fin 0, Fin 1]\<rparr>)"
  by (simp add: kw_defs eval_defs)

lemma validate_array3_200:
  "validate_array3 (PList [PInt 2, PInt 0, PInt 0]) True False no_kwargs
     = Inr (OArr \<lparr>shape = [3], dtype = DInt, data = [Fin 2, Fin 0, Fin 0]\<rparr>)"
  by (simp add: kw_defs eval_defs)

lemma wrap64_small: "- (2 ^ 63) \<le> i \<Longrightarrow> i < 2 ^ 63 \<Longrightarrow> wrap64 i = i"
  by (simp add: wrap64_def)

lemma store_DInt_of_int:
  "- (2 ^ 63) \<le> i \<Longrightarrow> i < 2 ^ 63 \<Longrightarrow> store DInt (Fin (of_int i)) = Fin (of_int i)"
  by (simp add: store_def wrap64_small)

lemma store_DInt_small [simp]:
  "store DInt (Fin 0) = Fin 0"
  "store DInt (Fin 1) = Fin 1"
  "store DInt (Fin (- 1)) = Fin (- 1)"
  "store DInt (Fin 4) = Fin 4"
  using store_DInt_of_int [of 0] store_DInt_of_int [of 1] store_DInt_of_int [of "- 1"]
    store_DInt_of_int [of 4]
  by simp_all

lemma store_other [simp]: "store DFloat x = x" "store DBool x = x"
  by (simp_all add: store_def)

lemma dtype_join_comm: "dtype_join x y = dtype_join y x"
  by (cases x; cases y) simp_all

lemma dtype_join_absorb: "dtype_join x (dtype_join y (dtype_join x y)) = dtype_join x y"
  by (cases x; cases y) simp_all

lemma np_cross_Inr:
  "np_cross u v = Inr w \<Longrightarrow>
     shape u = [3] \<and> shape v = [3]
     \<and> w = \<lparr>shape = [3], dtype = dtype_join (dtype u) (dtype v),
             data = cross3 (dtype_join (dtype u) (dtype v)) (data u) (data v)\<rparr>"
  by (auto simp add: np_cross_def split: if_splits)

lemma validate_axes_two:
  assumes "validate_array3 a True False no_kwargs = Inr (OArr v0)"
    and "validate_array3 b True False no_kwargs = Inr (OArr v1)"
    and "validate_axes [a, b] nrm orth (Some s) = Inr r"
  shows "(s = ''right'' \<or> s = ''left'')
       \<and> (\<exists>v2 A. (if s = ''right'' then np_cross v0 v1 else np_cross v1 v0) = Inr v2
                 \<and> np_vstack3 v0 v1 v2 = Inr A
                 \<and> r = (if nrm then normalize_rows A else A))"
proof -
  have s: "s = ''right'' \<or> s = ''left''"
    using assms(3) by (auto simp add: validate_axes_def check_contains_def split: if_splits)
  then have cc: "check_contains s [''right'', ''left''] = Inr ()"
    by (auto simp add: check_contains_def)
  from assms(3) obtain v2 where v2: "(if s = ''right'' then np_cross v0 v1 else np_cross v1 v0) = Inr v2"
    and rest: "err_bind (np_vstack3 v0 v1 v2) (\<lambda>axes_array.
     err_bind (check_finite axes_array) (\<lambda>_.
       if isclose (np_dot (dtype axes_array) (data (row axes_array 0)) (data (row axes_array 1)))
            (Fin 1)
          \<or> isclose (np_dot (dtype axes_array) (data (row axes_array 0)) (data (row axes_array 2)))
               (Fin 1)
       then Inl ValueError
       else if list_ex (\<lambda>i. list_all (\<lambda>x. isclose x (Fin 0)) (data (row axes_array i))) [0, 1, 2]
       then Inl ValueError
       else
         (let axes_norm = normalize_rows axes_array;
              cross_0_1 = cross3 DFloat (data (row axes_norm 0)) (data (row axes_norm 1));
              cross_1_2 = cross3 DFloat (data (row axes_norm 1)) (data (row axes_norm 2));
              dot = np_dot DFloat cross_0_1 (data (row axes_norm 2))
          in if orth \<and>
                \<not> ((allclose cross_0_1 (data (row axes_norm 2))
                      \<or> allclose cross_0_1 (map num_neg (data (row axes_norm 2))))
                   \<and> (allclose cross_1_2 (data (row axes_norm 0))
                      \<or> allclose cross_1_2 (map num_neg (data (row axes_norm 0)))))
             then Inl ValueError
             else if Some s = Some ''right'' \<and> num_lt dot (Fin 0)
             then Inl ValueError
             else if Some s = Some ''left'' \<and> num_lt (Fin 0) dot
             then Inl ValueError
             else if nrm then Inr axes_norm
             else Inr axes_array))) = Inr r"
    unfolding validate_axes_def
    by (simp add: assms(1,2) cc np_asarray_def err_bind_eq_Inr) blast
  from rest obtain A where A: "np_vstack3 v0 v1 v2 = Inr A"
    and r: "r = (if nrm then normalize_rows A else A)"
    by (auto simp add: err_bind_eq_Inr Let_def split: if_splits)
  show ?thesis using s v2 A r by blast
qed

text \<open>
  C6. When \<^verbatim>\<open>validate_axes\<close> is given exactly two vectors (\<open>v0\<close> and \<open>v1\<close> once
  validated) and returns, the orientation is \<^verbatim>\<open>'right'\<close> or \<^verbatim>\<open>'left'\<close> and the result is
  the array of the rows \<open>v0\<close>, \<open>v1\<close> and their cross product, \<open>v0 \<times> v1\<close> for \<^verbatim>\<open>'right'\<close>
  and \<open>v1 \<times> v0\<close> for \<^verbatim>\<open>'left'\<close>, with every row divided by its norm when \<^verbatim>\<open>normalize\<close> is
  set. The witness is the claim's two calls: \<^verbatim>\<open>validate_axes([1,0,0], [0,1,0])\<close> returns the
  rows \<open>[1,0,0]\<close>, \<open>[0,1,0]\<close>, \<open>[0,0,1]\<close>, and with \<^verbatim>\<open>must_have_orientation='left'\<close> the third
  row is \<open>[0,0,-1]\<close>.
\<close>

theorem third_axis_is_oriented_cross_product:
  assumes "validate_array3 a True False no_kwargs = Inr (OArr v0)"
    and "validate_array3 b True False no_kwargs = Inr (OArr v1)"
    and "validate_axes [a, b] nrm orth (Some s) = Inr r"
  shows "(s = ''right'' \<or> s = ''left'')
       \<and> r = (let axes_array =
                    \<lparr>shape = [3, 3], dtype = dtype_join (dtype v0) (dtype v1),
                     data = data v0 @ data v1
                            @ (if s = ''right''
                               then cross3 (dtype_join (dtype v0) (dtype v1)) (data v0) (data v1)
                               else cross3 (dtype_join (dtype v0) (dtype v1)) (data v1) (data v0))\<rparr>
               in if nrm then normalize_rows axes_array else axes_array)"
proof -
  obtain v2 A where s: "s = ''right'' \<or> s = ''left''"
    and v2: "(if s = ''right'' then np_cross v0 v1 else np_cross v1 v0) = Inr v2"
    and A: "np_vstack3 v0 v1 v2 = Inr A"
    and r: "r = (if nrm then normalize_rows A else A)"
    using validate_axes_two [OF assms] by blast
  have sh: "shape v0 = [3]" "shape v1 = [3]"
    using v2 np_cross_Inr by (auto split: if_splits)
  have d2: "data v2 = (if s = ''right''
                       then cross3 (dtype_join (dtype v0) (dtype v1)) (data v0) (data v1)
                       else cross3 (dtype_join (dtype v0) (dtype v1)) (data v1) (data v0))"
    and t2: "dtype v2 = dtype_join (dtype v0) (dtype v1)"
    using v2 np_cross_Inr [of v0 v1 v2] np_cross_Inr [of v1 v0 v2] dtype_join_comm [of "dtype v1"]
    by (auto split: if_splits)
  have "A = \<lparr>shape = [3, 3], dtype = dtype_join (dtype v0) (dtype v1),
             data = data v0 @ data v1 @ data v2\<rparr>"
    using A sh by (auto simp add: np_vstack3_def t2 dtype_join_absorb split: if_splits)
  then show ?thesis
    using s r d2 by (simp add: Let_def)
qed

theorem third_axis_is_oriented_cross_product_witness:
  "validate_axes [PList [PInt 1, PInt 0, PInt 0], PList [PInt 0, PInt 1, PInt 0]]
       True True (Some ''right'')
     = Inr \<lparr>shape = [3, 3], dtype = DFloat,
            data = [Fin 1, Fin 0, Fin 0, Fin 0, Fin 1, Fin 0, Fin 0, Fin 0, Fin 1]\<rparr>
   \<and> validate_axes [PList [PInt 1, PInt 0, PInt 0], PList [PInt 0, PInt 1, PInt 0]]
       True True (Some ''left'')
     = Inr \<lparr>shape = [3, 3], dtype = DFloat,
            data = [Fin 1, Fin 0, Fin 0, Fin 0, Fin 1, Fin 0, Fin 0, Fin 0, Fin (- 1)]\<rparr>"
proof -
  have right: "validate_axes [PList [PInt 1, PInt 0, PInt 0], PList [PInt 0, PInt 1, PInt 0]]
       True True (Some ''right'')
     = Inr \<lparr>shape = [3, 3], dtype = DFloat,
            data = [Fin 1, Fin 0, Fin 0, Fin 0, Fin 1, Fin 0, Fin 0, Fin 0, Fin 1]\<rparr>"
    by (simp add: axes_defs validate_array3_100 validate_array3_010)
  have left: "validate_axes [PList [PInt 1, PInt 0, PInt 0], PList [PInt 0, PInt 1, PInt 0]]
       True True (Some ''left'')
     = Inr \<lparr>shape = [3, 3], dtype = DFloat,
            data = [Fin 1, Fin 0, Fin 0, Fin 0, Fin 1, Fin 0, Fin 0, Fin 0, Fin (- 1)]\<rparr>"
    by (simp add: axes_defs validate_array3_100 validate_array3_010)
  show ?thesis
    using third_axis_is_oriented_cross_product [OF validate_array3_100 validate_array3_010 right]
      third_axis_is_oriented_cross_product [OF validate_array3_100 validate_array3_010 left]
      right left
    by simp
qed

subsection \<open>The parallel check of \<^verbatim>\<open>validate_axes\<close>\<close>

text \<open>
  C2. The claim is that \<^verbatim>\<open>validate_axes\<close> raises \<^verbatim>\<open>ValueError\<close> for every parallel pair
  of vectors. The code tests \<^verbatim>\<open>np.isclose(np.dot(.,.), 1)\<close> on the vectors as given, and
  only for the pairs (0,1) and (0,2). With \<^verbatim>\<open>must_be_orthogonal=False\<close>: a parallel first
  pair of unit vectors is rejected; a parallel second and third vector are accepted;
  a parallel first pair of norm 2 is accepted.
\<close>

theorem parallel_axes_accepted:
  "validate_axes [PList [PInt 1, PInt 0, PInt 0], PList [PInt 1, PInt 0, PInt 0],
                  PList [PInt 0, PInt 0, PInt 1]] True False (Some ''right'')
     = Inl ValueError
   \<and> validate_axes [PList [PInt 1, PInt 0, PInt 0], PList [PInt 0, PInt 1, PInt 0],
                  PList [PInt 0, PInt 1, PInt 0]] True False (Some ''right'')
     = Inr \<lparr>shape = [3, 3], dtype = DFloat,
            data = [Fin 1, Fin 0, Fin 0, Fin 0, Fin 1, Fin 0, Fin 0, Fin 1, Fin 0]\<rparr>
   \<and> validate_axes [PList [PInt 2, PInt 0, PInt 0], PList [PInt 2, PInt 0, PInt 0],
                  PList [PInt 0, PInt 0, PInt 1]] False False (Some ''right'')
     = Inr \<lparr>shape = [3, 3], dtype = DInt,
            data = [Fin 2, Fin 0, Fin 0, Fin 2, Fin 0, Fin 0, Fin 0, Fin 0, Fin 1]\<rparr>"
  by (simp add: axes_defs validate_array3_100 validate_array3_010 validate_array3_001
      validate_array3_200)

subsection \<open>The length check of \<^verbatim>\<open>validate_array\<close>\<close>

text \<open>
  C1. The claim is that a declared length is checked against the shape after reshape
  and broadcast. The code passes the caller's input to the length check: the input
  \<^verbatim>\<open>[[1, 2, 3]]\<close> of shape \<open>(1, 3)\<close> with \<^verbatim>\<open>reshape_to=(-1)\<close> is rejected under
  \<^verbatim>\<open>must_have_length=3\<close>, the length of the reshaped array, and accepted under
  \<^verbatim>\<open>must_have_length=1\<close>, the length of the input.
\<close>

theorem length_checked_on_raw_input:
  "validate_array (PList [PList [PInt 1, PInt 2, PInt 3]])
       (default_config\<lparr>reshape_to := Some (SInt (- 1)), must_have_length := Some [3]\<rparr>)
     = Inl ValueError
   \<and> validate_array (PList [PList [PInt 1, PInt 2, PInt 3]])
       (default_config\<lparr>reshape_to := Some (SInt (- 1)), must_have_length := Some [1]\<rparr>)
     = Inr (OArr \<lparr>shape = [3], dtype = DInt, data = [Fin 1, Fin 2, Fin 3]\<rparr>)"
  by (simp add: eval_defs)

theorem length_checked_on_raw_input_witness:
  "validate_array (PList [PList [PInt 1, PInt 2, PInt 3]])
       (default_config\<lparr>reshape_to := Some (SInt (- 1)), must_have_length := Some [3]\<rparr>)
     \<noteq> Inr (OArr \<lparr>shape = [3], dtype = DInt, data = [Fin 1, Fin 2, Fin 3]\<rparr>)"
  using length_checked_on_raw_input by simp

subsection \<open>Locked parameters\<close>

lemmas lock_defs = overridden_def set_default_kwarg_mandatory_def setdefault_def Let_def

lemma validate_number_locked:
  "overridden (kw_reshape_to kw) (Some (STuple []))
     \<or> overridden (kw_must_have_shape kw) (Some (ShapeList [STuple [], STuple [1]]))
   \<Longrightarrow> validate_number num True kw = Inl ValueError"
  by (auto simp add: validate_number_def lock_defs split: option.splits)

lemma validate_number_no_reshape_locked:
  "overridden (kw_must_have_shape kw) (Some (OneShape (STuple [])))
   \<Longrightarrow> validate_number num False kw = Inl ValueError"
  by (auto simp add: validate_number_def lock_defs split: option.splits)

lemma validate_data_range_locked:
  "overridden (kw_must_have_shape kw) (Some (OneShape (SInt 2)))
     \<or> overridden (kw_must_be_sorted kw) (SortBool True)
   \<Longrightarrow> validate_data_range rng kw = Inl ValueError"
  by (auto simp add: validate_data_range_def lock_defs split: option.splits)

lemma validate_arrayNx3_locked:
  "overridden (kw_reshape_to kw) (Some (STuple [- 1, 3]))
     \<or> overridden (kw_must_have_shape kw) (Some (ShapeList [SInt 3, STuple [- 1, 3]]))
   \<Longrightarrow> validate_arrayNx3 array True kw = Inl ValueError"
  by (auto simp add: validate_arrayNx3_def lock_defs split: option.splits)

lemma validate_arrayNx3_no_reshape_locked:
  "overridden (kw_must_have_shape kw) (Some (OneShape (STuple [- 1, 3])))
   \<Longrightarrow> validate_arrayNx3 array False kw = Inl ValueError"
  by (auto simp add: validate_arrayNx3_def lock_defs split: option.splits)

lemma validate_arrayN_locked:
  "overridden (kw_reshape_to kw) (Some (SInt (- 1)))
     \<or> overridden (kw_must_have_shape kw)
          (Some (ShapeList [STuple [], SInt (- 1), STuple [1, - 1], STuple [- 1, 1]]))
   \<Longrightarrow> validate_arrayN array True kw = Inl ValueError"
  by (auto simp add: validate_arrayN_def lock_defs split: option.splits)

lemma validate_arrayN_no_reshape_locked:
  "overridden (kw_must_have_shape kw) (Some (OneShape (SInt (- 1))))
   \<Longrightarrow> validate_arrayN array False kw = Inl ValueError"
  by (auto simp add: validate_arrayN_def lock_defs split: option.splits)

lemma validate_arrayN_uintlike_locked:
  "kw_dtype_out kw = None \<or> kw_dtype_out kw = Some (Some TInt)
     \<or> kw_dtype_out kw = Some (Some TInteger)
   \<Longrightarrow> overridden (kw_must_be_integer kw) True \<or> overridden (kw_must_be_nonnegative kw) True
   \<Longrightarrow> validate_arrayN_uintlike array reshape kw = Inl ValueError"
  by (auto simp add: validate_arrayN_uintlike_def lock_defs check_subdtype_def
      split: option.splits)

lemma validate_array3_locked:
  "(reshape \<and> overridden (kw_reshape_to kw) (Some (SInt (- 1))))
     \<or> (broadcast \<and> overridden (kw_broadcast_to kw) (Some (STuple [3])))
     \<or> overridden (kw_must_have_shape kw)
          (Some (ShapeList ([STuple [3]]
                            @ (if reshape then [STuple [1, 3], STuple [3, 1]] else [])
                            @ (if broadcast then [STuple [], STuple [1]] else []))))
   \<Longrightarrow> validate_array3 array reshape broadcast kw = Inl ValueError"
  by (auto simp add: validate_array3_def lock_defs split: option.splits)

text \<open>
  C3, as amended. In every specialized validator, passing a locked parameter with a
  value other than the locked one raises \<^verbatim>\<open>ValueError\<close> (not \<^verbatim>\<open>TypeError\<close>) before
  \<^verbatim>\<open>validate_array\<close> is called, so no override is silently replaced. The locks are:
  \<^verbatim>\<open>reshape_to\<close> and \<^verbatim>\<open>must_have_shape\<close> in \<^verbatim>\<open>validate_number\<close>, \<^verbatim>\<open>validate_arrayNx3\<close> and
  \<^verbatim>\<open>validate_arrayN\<close> (\<^verbatim>\<open>reshape_to\<close> only when \<^verbatim>\<open>reshape=True\<close>); \<^verbatim>\<open>must_have_shape\<close> and
  \<^verbatim>\<open>must_be_sorted\<close> in \<^verbatim>\<open>validate_data_range\<close>; \<^verbatim>\<open>must_be_integer\<close> and
  \<^verbatim>\<open>must_be_nonnegative\<close> in \<^verbatim>\<open>validate_arrayN_uintlike\<close>, once its check of \<^verbatim>\<open>dtype_out\<close>
  has passed; \<^verbatim>\<open>reshape_to\<close>, \<^verbatim>\<open>broadcast_to\<close> and \<^verbatim>\<open>must_have_shape\<close> in
  \<^verbatim>\<open>validate_array3\<close>.
\<close>

theorem locked_override_raises_ValueError:
  "(overridden (kw_reshape_to kw) (Some (STuple []))
      \<or> overridden (kw_must_have_shape kw) (Some (ShapeList [STuple [], STuple [1]]))
    \<longrightarrow> validate_number num True kw = Inl ValueError)
   \<and> (overridden (kw_must_have_shape kw) (Some (OneShape (STuple [])))
    \<longrightarrow> validate_number num False kw = Inl ValueError)
   \<and> (overridden (kw_must_have_shape kw) (Some (OneShape (SInt 2)))
      \<or> overridden (kw_must_be_sorted kw) (SortBool True)
    \<longrightarrow> validate_data_range num kw = Inl ValueError)
   \<and> (overridden (kw_reshape_to kw) (Some (STuple [- 1, 3]))
      \<or> overridden (kw_must_have_shape kw) (Some (ShapeList [SInt 3, STuple [- 1, 3]]))
    \<longrightarrow> validate_arrayNx3 num True kw = Inl ValueError)
   \<and> (overridden (kw_must_have_shape kw) (Some (OneShape (STuple [- 1, 3])))
    \<longrightarrow> validate_arrayNx3 num False kw = Inl ValueError)
   \<and> (overridden (kw_reshape_to kw) (Some (SInt (- 1)))
      \<or> overridden (kw_must_have_shape kw)
           (Some (ShapeList [STuple [], SInt (- 1), STuple [1, - 1], STuple [- 1, 1]]))
    \<longrightarrow> validate_arrayN num True kw = Inl ValueError)
   \<and> (overridden (kw_must_have_shape kw) (Some (OneShape (SInt (- 1))))
    \<longrightarrow> validate_arrayN num False kw = Inl ValueError)
   \<and> ((kw_dtype_out kw = None \<or> kw_dtype_out kw = Some (Some TInt)
         \<or> kw_dtype_out kw = Some (Some TInteger))
      \<and> (overridden (kw_must_be_integer kw) True \<or> overridden (kw_must_be_nonnegative kw) True)
    \<longrightarrow> validate_arrayN_uintlike num reshape kw = Inl ValueError)
   \<and> ((reshape \<and> overridden (kw_reshape_to kw) (Some (SInt (- 1))))
      \<or> (broadcast \<and> overridden (kw_broadcast_to kw) (Some (STuple [3])))
      \<or> overridden (kw_must_have_shape kw)
           (Some (ShapeList ([STuple [3]]
                             @ (if reshape then [STuple [1, 3], STuple [3, 1]] else [])
                             @ (if broadcast then [STuple [], STuple [1]] else []))))
    \<longrightarrow> validate_array3 num reshape broadcast kw = Inl ValueError)"
  using validate_number_locked [of kw num] validate_number_no_reshape_locked [of kw num]
    validate_data_range_locked [of kw num] validate_arrayNx3_locked [of kw num]
    validate_arrayNx3_no_reshape_locked [of kw num] validate_arrayN_locked [of kw num]
    validate_arrayN_no_reshape_locked [of kw num]
    validate_arrayN_uintlike_locked [of kw num reshape]
    validate_array3_locked [of reshape kw broadcast num]
  by blast

theorem locked_override_raises_ValueError_witness:
  "validate_number (PInt 1) True (no_kwargs\<lparr>kw_reshape_to := Some (Some (STuple [1]))\<rparr>)
     = Inl ValueError
   \<and> validate_number (PInt 1) False (no_kwargs\<lparr>kw_must_have_shape := Some None\<rparr>)
     = Inl ValueError
   \<and> validate_data_range (PInt 1) (no_kwargs\<lparr>kw_must_be_sorted := Some (SortBool False)\<rparr>)
     = Inl ValueError
   \<and> validate_arrayNx3 (PInt 1) True (no_kwargs\<lparr>kw_reshape_to := Some (Some (STuple [3, - 1]))\<rparr>)
     = Inl ValueError
   \<and> validate_arrayNx3 (PInt 1) False
       (no_kwargs\<lparr>kw_must_have_shape := Some (Some (OneShape (SInt 3)))\<rparr>)
     = Inl ValueError
   \<and> validate_arrayN (PInt 1) True (no_kwargs\<lparr>kw_reshape_to := Some (Some (STuple [- 1]))\<rparr>)
     = Inl ValueError
   \<and> validate_arrayN (PInt 1) False
       (no_kwargs\<lparr>kw_must_have_shape := Some (Some (OneShape (STuple [- 1])))\<rparr>)
     = Inl ValueError
   \<and> validate_arrayN_uintlike (PInt 1) True (no_kwargs\<lparr>kw_must_be_integer := Some False\<rparr>)
     = Inl ValueError
   \<and> validate_array3 (PInt 1) True True
       (no_kwargs\<lparr>kw_broadcast_to := Some (Some (SInt 3))\<rparr>)
     = Inl ValueError"
  using
    locked_override_raises_ValueError
      [of "no_kwargs\<lparr>kw_reshape_to := Some (Some (STuple [1]))\<rparr>" "PInt 1" True True]
    locked_override_raises_ValueError
      [of "no_kwargs\<lparr>kw_must_have_shape := Some None\<rparr>" "PInt 1" True True]
    locked_override_raises_ValueError
      [of "no_kwargs\<lparr>kw_must_be_sorted := Some (SortBool False)\<rparr>" "PInt 1" True True]
    locked_override_raises_ValueError
      [of "no_kwargs\<lparr>kw_reshape_to := Some (Some (STuple [3, - 1]))\<rparr>" "PInt 1" True True]
    locked_override_raises_ValueError
      [of "no_kwargs\<lparr>kw_must_have_shape := Some (Some (OneShape (SInt 3)))\<rparr>" "PInt 1" True True]
    locked_override_raises_ValueError
      [of "no_kwargs\<lparr>kw_reshape_to := Some (Some (STuple [- 1]))\<rparr>" "PInt 1" True True]
    locked_override_raises_ValueError
      [of "no_kwargs\<lparr>kw_must_have_shape := Some (Some (OneShape (STuple [- 1])))\<rparr>" "PInt 1"
          True True]
    locked_override_raises_ValueError
      [of "no_kwargs\<lparr>kw_must_be_integer := Some False\<rparr>" "PInt 1" True True]
    locked_override_raises_ValueError
      [of "no_kwargs\<lparr>kw_broadcast_to := Some (Some (SInt 3))\<rparr>" "PInt 1" True True]
  by (simp add: overridden_def no_kwargs_def)

text \<open>
  C3 as stated fails: overriding the locked \<^verbatim>\<open>must_have_shape\<close> of \<^verbatim>\<open>validate_number\<close>
  raises \<^verbatim>\<open>ValueError\<close>, which is not the type error of the claim.
\<close>

theorem locked_override_is_not_TypeError:
  "validate_number (PInt 1) True
       (no_kwargs\<lparr>kw_must_have_shape := Some (Some (OneShape (STuple [3])))\<rparr>)
     = Inl ValueError
   \<and> validate_number (PInt 1) True
       (no_kwargs\<lparr>kw_must_have_shape := Some (Some (OneShape (STuple [3])))\<rparr>)
     \<noteq> Inl TypeError"
  by (simp add: validate_number_def lock_defs no_kwargs_def)

subsection \<open>\<^verbatim>\<open>validate_transform4x4\<close> on array input\<close>

lemma upt_0_4: "[0..<4] = [0, 1, 2, 3]"
  by (simp add: upt_rec)

lemma set_block3_eye:
  "set_block3 (np_eye 4) a =
     \<lparr>shape = [4, 4], dtype = DFloat,
      data = [data a ! 0, data a ! 1, data a ! 2, Fin 0,
              data a ! 3, data a ! 4, data a ! 5, Fin 0,
              data a ! 6, data a ! 7, data a ! 8, Fin 0,
              Fin 0, Fin 0, Fin 0, Fin 1]\<rparr>"
  by (simp add: set_block3_def np_eye_def upt_0_4 numeral_2_eq_2)

lemma validate_transform4x4_embeds:
  assumes "cast_to_numpy obj True False True = Inr a" and "shape a = [3, 3]"
    and "list_all is_finite (data a)"
  shows "validate_transform4x4 (Other obj) = Inr (set_block3 (np_eye 4) a)"
  using assms
  by (simp add: validate_transform4x4_def validate_array_def default_config_def check_shape_def
      shape_matches_def shape_patterns_def shape_dims_def check_finite_def np_asarray_def
      shape_tuple_def value_error_as_type_error_def)

lemma value_error_as_type_error_Inl: "value_error_as_type_error (Inl e) = Inl TypeError"
  by (cases e) (simp_all add: value_error_as_type_error_def)

lemma validate_transform4x4_rejects:
  assumes "\<forall>a. cast_to_numpy obj True False True = Inr a
             \<longrightarrow> shape a \<noteq> [3, 3] \<and> shape a \<noteq> [4, 4]"
  shows "validate_transform4x4 (Other obj) = Inl TypeError"
proof (cases "cast_to_numpy obj True False True")
  case (Inl e)
  then show ?thesis
    by (simp add: validate_transform4x4_def validate_array_def default_config_def
        value_error_as_type_error_Inl)
next
  case (Inr a)
  then have "shape a \<noteq> [3, 3]" "shape a \<noteq> [4, 4]"
    using assms by auto
  then have "check_shape a (ShapeList [STuple [3, 3], STuple [4, 4]]) = Inl ValueError"
    by (auto simp add: check_shape_def shape_matches_def shape_patterns_def shape_dims_def
        list_all2_Cons2)
  then show ?thesis
    using Inr
    by (simp add: validate_transform4x4_def validate_array_def default_config_def
        value_error_as_type_error_Inl)
qed

text \<open>
  C8. For an input that is not one of the toolkit's matrix objects:
  if it coerces to a finite array of shape \<open>(3,3)\<close>, \<^verbatim>\<open>validate_transform4x4\<close> returns the
  4x4 array whose top-left block holds the nine elements and whose fourth row and
  column are those of the identity; if it does not coerce to an array of shape \<open>(3,3)\<close>
  or \<open>(4,4)\<close>, \<^verbatim>\<open>validate_transform4x4\<close> raises \<^verbatim>\<open>TypeError\<close>.
\<close>

theorem transform4x4_embeds_3x3_and_rejects_other_shapes:
  "(cast_to_numpy obj True False True = Inr a \<and> shape a = [3, 3] \<and> list_all is_finite (data a)
    \<longrightarrow> validate_transform4x4 (Other obj) =
          Inr \<lparr>shape = [4, 4], dtype = DFloat,
               data = [data a ! 0, data a ! 1, data a ! 2, Fin 0,
                       data a ! 3, data a ! 4, data a ! 5, Fin 0,
                       data a ! 6, data a ! 7, data a ! 8, Fin 0,
                       Fin 0, Fin 0, Fin 0, Fin 1]\<rparr>)
   \<and> ((\<forall>b. cast_to_numpy obj True False True = Inr b
             \<longrightarrow> shape b \<noteq> [3, 3] \<and> shape b \<noteq> [4, 4])
    \<longrightarrow> validate_transform4x4 (Other obj) = Inl TypeError)"
  using validate_transform4x4_embeds [of obj a] validate_transform4x4_rejects [of obj]
  by (simp add: set_block3_eye)

theorem transform4x4_embeds_3x3_and_rejects_other_shapes_witness:
  "validate_transform4x4
       (Other (PList [PList [PInt 1, PInt 2, PInt 3], PList [PInt 4, PInt 5, PInt 6],
                      PList [PInt 7, PInt 8, PInt 9]]))
     = Inr \<lparr>shape = [4, 4], dtype = DFloat,
            data = [Fin 1, Fin 2, Fin 3, Fin 0,
                    Fin 4, Fin 5, Fin 6, Fin 0,
                    Fin 7, Fin 8, Fin 9, Fin 0,
                    Fin 0, Fin 0, Fin 0, Fin 1]\<rparr>
   \<and> validate_transform4x4 (Other (PList [PInt 1, PInt 2, PInt 3])) = Inl TypeError
   \<and> validate_transform4x4 (Other (PStr ''abc'')) = Inl TypeError"
proof -
  have c1: "cast_to_numpy (PList [PList [PInt 1, PInt 2, PInt 3], PList [PInt 4, PInt 5, PInt 6],
                      PList [PInt 7, PInt 8, PInt 9]]) True False True
            = Inr \<lparr>shape = [3, 3], dtype = DInt,
                   data = [Fin 1, Fin 2, Fin 3, Fin 4, Fin 5, Fin 6, Fin 7, Fin 8, Fin 9]\<rparr>"
    by (simp add: eval_defs)
  have c2: "cast_to_numpy (PList [PInt 1, PInt 2, PInt 3]) True False True
            = Inr \<lparr>shape = [3], dtype = DInt, data = [Fin 1, Fin 2, Fin 3]\<rparr>"
    by (simp add: eval_defs)
  have c3: "cast_to_numpy (PStr ''abc'') True False True = Inl TypeError"
    by (simp add: eval_defs)
  show ?thesis
    using
      transform4x4_embeds_3x3_and_rejects_other_shapes
        [of "PList [PList [PInt 1, PInt 2, PInt 3], PList [PInt 4, PInt 5, PInt 6],
                    PList [PInt 7, PInt 8, PInt 9]]"
            "\<lparr>shape = [3, 3], dtype = DInt,
              data = [Fin 1, Fin 2, Fin 3, Fin 4, Fin 5, Fin 6, Fin 7, Fin 8, Fin 9]\<rparr>"]
      transform4x4_embeds_3x3_and_rejects_other_shapes
        [of "PList [PInt 1, PInt 2, PInt 3]" "\<lparr>shape = [3], dtype = DInt, data = []\<rparr>"]
      transform4x4_embeds_3x3_and_rejects_other_shapes
        [of "PStr ''abc''" "\<lparr>shape = [3], dtype = DInt, data = []\<rparr>"]
    by (simp add: c1 c2 c3)
qed

subsection \<open>Validating an array that is already valid\<close>

lemma valid_array_returned:
  assumes sat: "satisfies_constraints c a"
    and rsh: "reshape_to c = None
            \<or> (\<exists>r. reshape_to c = Some r \<and> (shape_tuple a = r \<or> np_reshape a r = Inr a))"
    and bch: "broadcast_to c = None
            \<or> (\<exists>b. broadcast_to c = Some b \<and> (shape_tuple a = b \<or> np_broadcast_to a b = Inr a))"
    and dth: "dtype_out c = None
            \<or> (\<exists>t. dtype_out c = Some t
                  \<and> (np_dtype t = dtype a \<or> map (cast_elem (np_dtype t)) (data a) = data a))"
  shows "validate_array (PArray a) c =
           Inr (let a' = a\<lparr>dtype := (case dtype_out c of None \<Rightarrow> dtype a | Some t \<Rightarrow> np_dtype t)\<rparr>
                in if to_tuple c then OPy (cast_to_tuple a')
                   else if to_list c then OPy (tolist a') else OArr a')"
proof -
  have c1: "case must_have_dtype c of None \<Rightarrow> True
            | Some ts \<Rightarrow> check_subdtype (dtype a) ts = Inr ()"
    and c2: "case must_have_shape c of None \<Rightarrow> True | Some s \<Rightarrow> check_shape a s = Inr ()"
    and c3: "check_length (PArray a) (must_have_length c) (must_have_min_length c)
               (must_have_max_length c) = Inr ()"
    and c4: "if must_be_nonnegative c then check_nonnegative a = Inr () else True"
    and c5: "if must_be_finite c then check_finite a = Inr () else True"
    and c6: "if must_be_integer c then check_integer a = Inr () else True"
    and c7: "case must_be_in_range c of None \<Rightarrow> True
             | Some rng \<Rightarrow> check_range a rng (strict_lower_bound c) (strict_upper_bound c) = Inr ()"
    and c8: "case must_be_sorted c of
               SortBool b \<Rightarrow> (if b then check_sorted a True False (- 1) = Inr () else True)
             | SortDict asc str ax \<Rightarrow>
                 (if asc = None \<and> str = None \<and> ax = None then True
                  else check_sorted a (case asc of None \<Rightarrow> True | Some v \<Rightarrow> v)
                         (case str of None \<Rightarrow> False | Some v \<Rightarrow> v)
                         (case ax of None \<Rightarrow> - 1 | Some v \<Rightarrow> v) = Inr ())"
    using sat unfolding satisfies_constraints_def by blast+
  have dt: "(case must_have_dtype c of None \<Rightarrow> Inr ()
             | Some ts \<Rightarrow> check_subdtype (dtype a) ts) = Inr ()"
    using c1 by (cases "must_have_dtype c") simp_all
  have sh: "(case must_have_shape c of None \<Rightarrow> Inr () | Some s \<Rightarrow> check_shape a s) = Inr ()"
    using c2 by (cases "must_have_shape c") simp_all
  have rs: "(case reshape_to c of None \<Rightarrow> Inr a
             | Some r \<Rightarrow> if shape_tuple a \<noteq> r then np_reshape a r else Inr a) = Inr a"
    using rsh by auto
  have bc: "(case broadcast_to c of None \<Rightarrow> Inr a
             | Some b \<Rightarrow> if shape_tuple a \<noteq> b then np_broadcast_to a b else Inr a) = Inr a"
    using bch by auto
  have ln: "(if must_have_length c \<noteq> None \<or> must_have_min_length c \<noteq> None
                  \<or> must_have_max_length c \<noteq> None
               then check_length (PArray a) (must_have_length c) (must_have_min_length c)
                      (must_have_max_length c)
               else Inr ()) = Inr ()"
    using c3 by simp
  have nn: "(if must_be_nonnegative c then check_nonnegative a else Inr ()) = Inr ()"
    using c4 by (cases "must_be_nonnegative c") simp_all
  have fi: "(if must_be_finite c then check_finite a else Inr ()) = Inr ()"
    using c5 by (cases "must_be_finite c") simp_all
  have ig: "(if must_be_integer c then check_integer a else Inr ()) = Inr ()"
    using c6 by (cases "must_be_integer c") simp_all
  have rg: "(case must_be_in_range c of None \<Rightarrow> Inr ()
               | Some rng \<Rightarrow> check_range a rng (strict_lower_bound c) (strict_upper_bound c))
            = Inr ()"
    using c7 by (cases "must_be_in_range c") simp_all
  have so: "(case must_be_sorted c of
                 SortBool b \<Rightarrow> if b then check_sorted a True False (- 1) else Inr ()
               | SortDict asc str ax \<Rightarrow>
                   if asc = None \<and> str = None \<and> ax = None then Inr ()
                   else check_sorted a (case asc of None \<Rightarrow> True | Some v \<Rightarrow> v)
                          (case str of None \<Rightarrow> False | Some v \<Rightarrow> v)
                          (case ax of None \<Rightarrow> - 1 | Some v \<Rightarrow> v)) = Inr ()"
  proof (cases "must_be_sorted c")
    case (SortBool b)
    then show ?thesis using c8 by (cases b) simp_all
  next
    case (SortDict asc str ax)
    then show ?thesis using c8
      by (cases "asc = None \<and> str = None \<and> ax = None") simp_all
  qed
  have ou: "(case dtype_out c of None \<Rightarrow> a | Some t \<Rightarrow> astype a (np_dtype t))
            = a\<lparr>dtype := (case dtype_out c of None \<Rightarrow> dtype a | Some t \<Rightarrow> np_dtype t)\<rparr>"
    using dth by (auto simp add: astype_def)
  show ?thesis
    unfolding validate_array_def
    by (simp only: cast_to_numpy_def pyobj.case err_bind_Inr dt sh rs bc ln nn fi ig rg so ou
        Let_def)
       simp
qed


lemma check_shape_cases: "check_shape a s = Inr () \<or> check_shape a s = Inl ValueError"
  by (simp add: check_shape_def)

lemma invalid_shape_rejected:
  assumes "must_have_shape c = Some s" and "check_shape a s \<noteq> Inr ()"
  shows "\<exists>e. validate_array (PArray a) c = Inl e"
proof -
  have sh: "check_shape a s = Inl ValueError"
    using assms(2) check_shape_cases by blast
  show ?thesis
  proof (cases "case must_have_dtype c of None \<Rightarrow> Inr ()
               | Some ts \<Rightarrow> check_subdtype (dtype a) ts")
    case (Inl e)
    then show ?thesis
      by (simp add: validate_array_def cast_to_numpy_def)
  next
    case (Inr u)
    then show ?thesis
      by (simp add: validate_array_def cast_to_numpy_def assms(1) sh)
  qed
qed

text \<open>
  C9, as amended. A canonical array that satisfies the constraints of a configuration,
  and that the reshape, the broadcast and the dtype cast of the configuration, where
  declared, leave as it is in shape and elements (its shape is the target or reshaping
  or broadcasting to the target gives the array itself; its kind is the output dtype or
  the cast changes no element), is validated without an exception, and the result is
  that array, with the same shape and elements, in the kind and output form requested.
  An array that does not match a declared \<^verbatim>\<open>must_have_shape\<close>, as the output of an earlier
  validation with a reshape can, is rejected.
\<close>

theorem valid_array_is_returned_unchanged:
  "(satisfies_constraints c a
    \<and> (reshape_to c = None
       \<or> (\<exists>r. reshape_to c = Some r \<and> (shape_tuple a = r \<or> np_reshape a r = Inr a)))
    \<and> (broadcast_to c = None
       \<or> (\<exists>b. broadcast_to c = Some b \<and> (shape_tuple a = b \<or> np_broadcast_to a b = Inr a)))
    \<and> (dtype_out c = None
       \<or> (\<exists>t. dtype_out c = Some t
             \<and> (np_dtype t = dtype a \<or> map (cast_elem (np_dtype t)) (data a) = data a)))
    \<longrightarrow> validate_array (PArray a) c =
          Inr (let a' = a\<lparr>dtype := (case dtype_out c of None \<Rightarrow> dtype a
                                     | Some t \<Rightarrow> np_dtype t)\<rparr>
               in if to_tuple c then OPy (cast_to_tuple a')
                  else if to_list c then OPy (tolist a') else OArr a'))
   \<and> ((\<exists>s. must_have_shape c = Some s \<and> check_shape a s \<noteq> Inr ())
    \<longrightarrow> (\<exists>e. validate_array (PArray a) c = Inl e))"
  using valid_array_returned [of c a] invalid_shape_rejected [of c _ a]
  by blast

theorem valid_array_is_returned_unchanged_witness:
  "validate_array (PArray \<lparr>shape = [3], dtype = DInt, data = [Fin 1, Fin 2, Fin 3]\<rparr>)
     (default_config\<lparr>must_have_shape :=
          Some (ShapeList [STuple [], SInt (- 1), STuple [1, - 1], STuple [- 1, 1]]),
        reshape_to := Some (SInt (- 1)), must_have_length := Some [3],
        must_be_sorted := SortBool True, must_be_integer := True,
        must_be_in_range := Some (Fin 0, Fin 10), dtype_out := Some TFloat\<rparr>)
    = Inr (OArr \<lparr>shape = [3], dtype = DFloat, data = [Fin 1, Fin 2, Fin 3]\<rparr>)
   \<and> validate_array (PArray \<lparr>shape = [1, 3], dtype = DInt, data = [Fin 1, Fin 2, Fin 3]\<rparr>)
        (default_config\<lparr>must_have_shape := Some (OneShape (STuple [3])),
           reshape_to := Some (STuple [1, 3])\<rparr>) = Inl ValueError"
proof -
  have e: "validate_array (PArray \<lparr>shape = [1, 3], dtype = DInt, data = [Fin 1, Fin 2, Fin 3]\<rparr>)
        (default_config\<lparr>must_have_shape := Some (OneShape (STuple [3])),
           reshape_to := Some (STuple [1, 3])\<rparr>) = Inl ValueError"
    by (simp add: eval_defs)
  show ?thesis
    using valid_array_is_returned_unchanged
      [of "default_config\<lparr>must_have_shape :=
          Some (ShapeList [STuple [], SInt (- 1), STuple [1, - 1], STuple [- 1, 1]]),
        reshape_to := Some (SInt (- 1)), must_have_length := Some [3],
        must_be_sorted := SortBool True, must_be_integer := True,
        must_be_in_range := Some (Fin 0, Fin 10), dtype_out := Some TFloat\<rparr>"
         "\<lparr>shape = [3], dtype = DInt, data = [Fin 1, Fin 2, Fin 3]\<rparr>"]
      valid_array_is_returned_unchanged
      [of "default_config\<lparr>must_have_shape := Some (OneShape (STuple [3])),
           reshape_to := Some (STuple [1, 3])\<rparr>"
         "\<lparr>shape = [1, 3], dtype = DInt, data = [Fin 1, Fin 2, Fin 3]\<rparr>"]
      e
    by (simp add: satisfies_constraints_def eval_defs check_sorted_def check_integer_def
        check_range_def check_subdtype_def in_order_def num_eq_def Let_def)
qed

text \<open>
  C9 as stated fails. Each array below satisfies every constraint that its configuration
  declares. An array of shape \<open>(1,3)\<close> under \<^verbatim>\<open>must_have_shape=(1,3)\<close>, \<^verbatim>\<open>must_be_finite\<close> and
  \<^verbatim>\<open>must_be_in_range=[0,10]\<close> comes back with shape \<open>(3,)\<close> when \<^verbatim>\<open>reshape_to=(3,)\<close>, and
  raises \<^verbatim>\<open>ValueError\<close> when \<^verbatim>\<open>reshape_to=(2,2)\<close>; an array of one nonnegative element
  comes back with three under \<^verbatim>\<open>broadcast_to=(3,)\<close>; the element 1.5, in range, comes back
  as 1 under \<^verbatim>\<open>dtype_out=int\<close>. And the output of a validation need not validate again:
  under \<^verbatim>\<open>must_have_shape=(3,)\<close> and \<^verbatim>\<open>reshape_to=(1,3)\<close> the list \<^verbatim>\<open>[1,2,3]\<close> is returned
  as an array of shape \<open>(1,3)\<close>, which the same configuration rejects.
\<close>

theorem valid_array_is_transformed:
  "satisfies_constraints
      (default_config\<lparr>must_have_shape := Some (OneShape (STuple [1, 3])), must_be_finite := True,
         must_be_in_range := Some (Fin 0, Fin 10), reshape_to := Some (STuple [3])\<rparr>)
      \<lparr>shape = [1, 3], dtype = DInt, data = [Fin 1, Fin 2, Fin 3]\<rparr>
   \<and> validate_array (PArray \<lparr>shape = [1, 3], dtype = DInt, data = [Fin 1, Fin 2, Fin 3]\<rparr>)
        (default_config\<lparr>must_have_shape := Some (OneShape (STuple [1, 3])), must_be_finite := True,
           must_be_in_range := Some (Fin 0, Fin 10), reshape_to := Some (STuple [3])\<rparr>)
      = Inr (OArr \<lparr>shape = [3], dtype = DInt, data = [Fin 1, Fin 2, Fin 3]\<rparr>)
   \<and> satisfies_constraints
      (default_config\<lparr>must_have_shape := Some (OneShape (STuple [1, 3])), must_be_finite := True,
         must_be_in_range := Some (Fin 0, Fin 10), reshape_to := Some (STuple [2, 2])\<rparr>)
      \<lparr>shape = [1, 3], dtype = DInt, data = [Fin 1, Fin 2, Fin 3]\<rparr>
   \<and> validate_array (PArray \<lparr>shape = [1, 3], dtype = DInt, data = [Fin 1, Fin 2, Fin 3]\<rparr>)
        (default_config\<lparr>must_have_shape := Some (OneShape (STuple [1, 3])), must_be_finite := True,
           must_be_in_range := Some (Fin 0, Fin 10), reshape_to := Some (STuple [2, 2])\<rparr>)
      = Inl ValueError
   \<and> satisfies_constraints
      (default_config\<lparr>must_have_shape := Some (OneShape (STuple [1])),
         must_be_nonnegative := True, broadcast_to := Some (STuple [3])\<rparr>)
      \<lparr>shape = [1], dtype = DInt, data = [Fin 5]\<rparr>
   \<and> validate_array (PArray \<lparr>shape = [1], dtype = DInt, data = [Fin 5]\<rparr>)
        (default_config\<lparr>must_have_shape := Some (OneShape (STuple [1])),
           must_be_nonnegative := True, broadcast_to := Some (STuple [3])\<rparr>)
      = Inr (OArr \<lparr>shape = [3], dtype = DInt, data = [Fin 5, Fin 5, Fin 5]\<rparr>)
   \<and> satisfies_constraints
      (default_config\<lparr>must_be_in_range := Some (Fin 0, Fin 10), dtype_out := Some TInt\<rparr>)
      \<lparr>shape = [1], dtype = DFloat, data = [Fin (3 / 2)]\<rparr>
   \<and> validate_array (PArray \<lparr>shape = [1], dtype = DFloat, data = [Fin (3 / 2)]\<rparr>)
        (default_config\<lparr>must_be_in_range := Some (Fin 0, Fin 10), dtype_out := Some TInt\<rparr>)
      = Inr (OArr \<lparr>shape = [1], dtype = DInt, data = [Fin 1]\<rparr>)
   \<and> validate_array (PList [PInt 1, PInt 2, PInt 3])
        (default_config\<lparr>must_have_shape := Some (OneShape (STuple [3])),
           reshape_to := Some (STuple [1, 3])\<rparr>)
      = Inr (OArr \<lparr>shape = [1, 3], dtype = DInt, data = [Fin 1, Fin 2, Fin 3]\<rparr>)
   \<and> validate_array (PArray \<lparr>shape = [1, 3], dtype = DInt, data = [Fin 1, Fin 2, Fin 3]\<rparr>)
        (default_config\<lparr>must_have_shape := Some (OneShape (STuple [3])),
           reshape_to := Some (STuple [1, 3])\<rparr>)
      = Inl ValueError"
  by (simp add: eval_defs satisfies_constraints_def np_broadcast_to_def astype_def
      check_finite_def check_range_def check_nonnegative_def numeral_3_eq_3 trunc64_def)

end
